theory Spec2Isabelle
  imports Main "HOL-Library.Sublist"
begin

section \<open>Python strings\<close>

text \<open>
  A Python \<^verbatim>\<open>str\<close> is modelled as a \<^typ>\<open>string\<close>, one \<^typ>\<open>char\<close> per code
  point, so the model covers the code points U+0000 to U+00FF. On that range the
  character classes below are the ones of CPython 3: \<^verbatim>\<open>str.isspace\<close> holds for
  U+0009..U+000D, U+001C..U+0020, U+0085 and U+00A0, and \<^verbatim>\<open>str.lower\<close> adds 32 to
  A..Z and to U+00C0..U+00DE except U+00D7, leaving every other code point alone.
  Slicing, \<^verbatim>\<open>split\<close>, \<^verbatim>\<open>rfind\<close>, \<^verbatim>\<open>join\<close>, \<^verbatim>\<open>endswith\<close> and \<^verbatim>\<open>in\<close> do not
  depend on the alphabet.
\<close>

definition isspace :: "char \<Rightarrow> bool" where
  "isspace c =
     (let n = (of_char c :: nat)
      in (9 \<le> n \<and> n \<le> 13) \<or> (28 \<le> n \<and> n \<le> 32) \<or> n = 133 \<or> n = 160)"

text \<open>\<^verbatim>\<open>s.strip()\<close>: leading and trailing whitespace removed.\<close>

definition strip :: "string \<Rightarrow> string" where
  "strip s = rev (dropWhile isspace (rev (dropWhile isspace s)))"

definition lower_char :: "char \<Rightarrow> char" where
  "lower_char c =
     (let n = (of_char c :: nat)
      in if (65 \<le> n \<and> n \<le> 90) \<or> (192 \<le> n \<and> n \<le> 222 \<and> n \<noteq> 215)
         then char_of (n + 32) else c)"

text \<open>\<^verbatim>\<open>s.lower()\<close>.\<close>

definition lower :: "string \<Rightarrow> string" where
  "lower s = map lower_char s"

text \<open>
  \<^verbatim>\<open>s.split(sep)\<close> for a one-character separator: the fragments between the
  separators, empty ones included; the empty string splits into one empty fragment.
\<close>

fun split :: "char \<Rightarrow> string \<Rightarrow> string list" where
  "split sep [] = [[]]"
| "split sep (c # cs) =
     (let rest = split sep cs
      in if c = sep then [] # rest else (c # hd rest) # tl rest)"

text \<open>
  \<^verbatim>\<open>s.rfind(c)\<close> for a one-character needle: the highest index holding \<open>c\<close>,
  or \<open>-1\<close> when \<open>c\<close> does not occur.
\<close>

fun rfind :: "char \<Rightarrow> string \<Rightarrow> int" where
  "rfind c [] = - 1"
| "rfind c (x # xs) =
     (let r = rfind c xs
      in if 0 \<le> r then r + 1 else if x = c then 0 else - 1)"

text \<open>
  The slice \<^verbatim>\<open>s[:n]\<close>. A negative bound counts from the end, as Python has it
  (no call below reaches that case: the bounds are validated or guarded first).
\<close>

definition slice_to :: "int \<Rightarrow> 'a list \<Rightarrow> 'a list" where
  "slice_to n s = (if 0 \<le> n then take (nat n) s else take (length s - nat (- n)) s)"

text \<open>\<^verbatim>\<open>sep.join(parts)\<close>.\<close>

fun join :: "string \<Rightarrow> string list \<Rightarrow> string" where
  "join sep [] = []"
| "join sep [p] = p"
| "join sep (p # q # ps) = p @ sep @ join sep (q # ps)"

text \<open>\<^verbatim>\<open>'...'\<close> around a value inside an f-string.\<close>

definition quoted :: "string \<Rightarrow> string" where
  "quoted s = [CHR 0x27] @ s @ [CHR 0x27]"

text \<open>\<^verbatim>\<open>str(n)\<close> of an integer: decimal digits, a minus sign when negative.\<close>

fun str_nat :: "nat \<Rightarrow> string" where
  "str_nat n =
     (if n < 10 then [char_of (48 + n)]
      else str_nat (n div 10) @ [char_of (48 + n mod 10)])"

definition str_int :: "int \<Rightarrow> string" where
  "str_int i = (if i < 0 then CHR ''-'' # str_nat (nat (- i)) else str_nat (nat i))"

text \<open>
  \<^verbatim>\<open>int(s)\<close> in base ten for a text \<open>s\<close> without surrounding whitespace (the only
  call passes the result of \<^verbatim>\<open>strip()\<close>): an optional sign, then decimal digits,
  where single underscores may stand between digits. \<open>None\<close> is the \<open>ValueError\<close>.
  CPython's configurable limit on the number of digits is not modelled.
\<close>

definition is_digit :: "char \<Rightarrow> bool" where
  "is_digit c = (let n = (of_char c :: nat) in 48 \<le> n \<and> n \<le> 57)"

definition digit_value :: "char \<Rightarrow> nat" where
  "digit_value c = of_char c - 48"

fun int_digits :: "string \<Rightarrow> nat \<Rightarrow> nat option" where
  "int_digits [] acc = Some acc"
| "int_digits (c # cs) acc =
     (if is_digit c then int_digits cs (10 * acc + digit_value c)
      else if c = CHR ''_''
      then (case cs of
              [] \<Rightarrow> None
            | d # ds \<Rightarrow> if is_digit d then int_digits ds (10 * acc + digit_value d) else None)
      else None)"

definition py_int :: "string \<Rightarrow> int option" where
  "py_int s =
     (let negative = (case s of [] \<Rightarrow> False | c # cs \<Rightarrow> c = CHR ''-'');
          body = (case s of [] \<Rightarrow> [] | c # cs \<Rightarrow> if c = CHR ''-'' \<or> c = CHR ''+'' then cs else s)
      in case body of
           [] \<Rightarrow> None
         | d # ds \<Rightarrow>
             if is_digit d
             then map_option (\<lambda>n. if negative then - int n else int n)
                    (int_digits ds (digit_value d))
             else None)"

section \<open>The external collaborators\<close>

text \<open>
  A raised exception is a value. \<open>ValueError\<close> is the only class the servers raise
  themselves. \<open>AttributeError\<close> is what Python raises for an attribute that an
  object does not have, \<open>MarkupError\<close> what the console library raises for markup
  it cannot render; \<open>OtherError\<close> stands for any other subclass of \<^verbatim>\<open>Exception\<close>
  that a library call raises. \<open>str_exn\<close> is \<^verbatim>\<open>str(e)\<close>.
\<close>

datatype exn = ValueError string | AttributeError string | MarkupError string | OtherError string

fun str_exn :: "exn \<Rightarrow> string" where
  "str_exn (ValueError m) = m"
| "str_exn (AttributeError m) = m"
| "str_exn (MarkupError m) = m"
| "str_exn (OtherError m) = m"

text \<open>
  What \<^verbatim>\<open>wiki.page(t)\<close> gives back: the fields of a \<^verbatim>\<open>WikipediaPage\<close> that the
  servers read.
\<close>

record page =
  page_exists :: bool
  page_title :: string
  page_fullurl :: string
  page_summary :: string
  page_text :: string
  page_categories :: "string list"
  page_links :: "string list"

text \<open>The answer of the search endpoint to one \<^verbatim>\<open>requests.get\<close>.\<close>

datatype search_response =
    RequestException string
  | UnexpectedException string
  | Pages "string list"

text \<open>The answer of \<^verbatim>\<open>ctx.elicit\<close>: its \<^verbatim>\<open>action\<close>, with the data when accepted.\<close>

datatype elicit_result = Accept string | Decline | Cancel

text \<open>
  The environment of one tool call. A page lookup either raises inside the library
  (\<open>Inl\<close>) or delivers the page; the search endpoint answers a query and a limit; the
  client answers an elicitation message.
\<close>

record env =
  wiki_page :: "string \<Rightarrow> exn + page"
  search_api :: "string \<Rightarrow> int \<Rightarrow> search_response"
  elicit :: "string \<Rightarrow> elicit_result"

text \<open>
  The calls a tool issues to its collaborators, in order. Calls to the process
  logger are not recorded.
\<close>

datatype event =
    HttpSearch string int
  | WikiLookup string
  | CtxInfo string
  | CtxProgress nat nat
  | CtxElicit string

section \<open>servers/wikipedia\_server.py\<close>

text \<open>
  The \<^verbatim>\<open>except Exception\<close> block shared by the three article tools: an exception
  whose text contains "not found" is raised again as it is, any other is wrapped
  in a \<open>ValueError\<close> that starts with the tool's own prefix.
\<close>

definition reraise_or_wrap :: "string \<Rightarrow> exn \<Rightarrow> exn" where
  "reraise_or_wrap pre e =
     (if sublist ''not found'' (lower (str_exn e)) then e
      else ValueError (pre @ str_exn e))"

text \<open>
  The truncation statements of \<^verbatim>\<open>get_article_content\<close> (and, word for word, of
  \<^verbatim>\<open>get_article_with_progress\<close>), entered when \<^verbatim>\<open>len(content) > max_length\<close>.
  The source compares \<^verbatim>\<open>break_point > max_length * 0.8\<close> in double precision. The
  double nearest to 0.8 is \<open>0.8 * (1 + 2^-54)\<close>, so for an integer \<open>m\<close> below \<open>2^53\<close>
  the rounded product is within half a unit in the last place of \<open>4 * m / 5\<close>: it
  is that integer when 5 divides \<open>m\<close>, and lies strictly between the same two
  integers as \<open>4 * m / 5\<close> otherwise. Against an integer \<open>b\<close> the comparison is
  therefore \<open>4 * m < 5 * b\<close>.
\<close>

definition truncate_content :: "string \<Rightarrow> int \<Rightarrow> string" where
  "truncate_content content max_length =
     (let truncated = slice_to max_length content;
          last_period = rfind CHR ''.'' truncated;
          last_newline = rfind CHR ''\<newline>'' truncated;
          break_point = max last_period last_newline
      in if 4 * max_length < 5 * break_point
         then slice_to (break_point + 1) content @ ''\<newline>\<newline>[Content truncated...]''
         else truncated @ ''...\<newline>\<newline>[Content truncated...]'')"

text \<open>The body of the \<^verbatim>\<open>try\<close> block of \<^verbatim>\<open>get_article_content\<close>.\<close>

definition content_body :: "env \<Rightarrow> string \<Rightarrow> int \<Rightarrow> exn + string" where
  "content_body e title max_length =
     (case wiki_page e (strip title) of
        Inl err \<Rightarrow> Inl err
      | Inr p \<Rightarrow>
          if \<not> page_exists p
          then Inl (ValueError (''Article '' @ quoted title @ '' not found on Wikipedia''))
          else let content = page_text p
               in if content = []
                  then Inl (ValueError (''No content available for article '' @ quoted title))
                  else if int (length content) > max_length
                       then Inr (truncate_content content max_length)
                       else Inr content)"

definition get_article_content :: "env \<Rightarrow> string \<Rightarrow> int \<Rightarrow> (exn + string) \<times> event list" where
  "get_article_content e title max_length =
     (if title = [] \<or> strip title = []
      then (Inl (ValueError ''Article title cannot be empty''), [])
      else if max_length < 100 \<or> max_length > 10000
      then (Inl (ValueError ''max_length must be between 100 and 10000''), [])
      else (case content_body e title max_length of
              Inl err \<Rightarrow> Inl (reraise_or_wrap ''Failed to get article content: '' err)
            | Inr r \<Rightarrow> Inr r,
            [WikiLookup (strip title)]))"

definition search_wikipedia :: "env \<Rightarrow> string \<Rightarrow> int \<Rightarrow> (exn + string list) \<times> event list" where
  "search_wikipedia e query limit =
     (if query = [] \<or> strip query = []
      then (Inl (ValueError ''Query cannot be empty''), [])
      else if limit < 1 \<or> limit > 10
      then (Inl (ValueError ''Limit must be between 1 and 10''), [])
      else (case search_api e (strip query) limit of
              RequestException m \<Rightarrow> Inl (ValueError (''Failed to search Wikipedia: '' @ m))
            | UnexpectedException m \<Rightarrow> Inl (ValueError (''Search failed: '' @ m))
            | Pages titles \<Rightarrow> Inr titles,
            [HttpSearch (strip query) limit]))"

text \<open>
  The statements of \<^verbatim>\<open>get_article_summary\<close> that cut the summary down to the
  requested number of sentences.
\<close>

definition limit_sentences :: "string \<Rightarrow> int \<Rightarrow> string" where
  "limit_sentences summary sentences =
     (let sentences_list = map strip (filter (\<lambda>s. strip s \<noteq> []) (split CHR ''.'' summary));
          limited_sentences = slice_to sentences sentences_list;
          result = join ''. '' limited_sentences
      in if result \<noteq> [] \<and> \<not> suffix ''.'' result then result @ ''.'' else result)"

text \<open>The body of the \<^verbatim>\<open>try\<close> block of \<^verbatim>\<open>get_article_summary\<close>.\<close>

definition summary_body :: "env \<Rightarrow> string \<Rightarrow> int \<Rightarrow> exn + string" where
  "summary_body e title sentences =
     (case wiki_page e (strip title) of
        Inl err \<Rightarrow> Inl err
      | Inr p \<Rightarrow>
          if \<not> page_exists p
          then Inl (ValueError (''Article '' @ quoted title @ '' not found on Wikipedia''))
          else let summary = page_summary p
               in if summary = []
                  then Inl (ValueError (''No summary available for article '' @ quoted title))
                  else Inr (limit_sentences summary sentences))"

definition get_article_summary :: "env \<Rightarrow> string \<Rightarrow> int \<Rightarrow> (exn + string) \<times> event list" where
  "get_article_summary e title sentences =
     (if title = [] \<or> strip title = []
      then (Inl (ValueError ''Article title cannot be empty''), [])
      else if sentences < 1 \<or> sentences > 10
      then (Inl (ValueError ''Sentences must be between 1 and 10''), [])
      else (case summary_body e title sentences of
              Inl err \<Rightarrow> Inl (reraise_or_wrap ''Failed to get article summary: '' err)
            | Inr r \<Rightarrow> Inr r,
            [WikiLookup (strip title)]))"

text \<open>The dictionary that \<^verbatim>\<open>get_article_info\<close> returns.\<close>

record article_info =
  info_title :: string
  info_url :: string
  info_summary_length :: nat
  info_content_length :: nat
  info_categories :: "string list"
  info_links_count :: nat

definition info_body :: "env \<Rightarrow> string \<Rightarrow> exn + article_info" where
  "info_body e title =
     (case wiki_page e (strip title) of
        Inl err \<Rightarrow> Inl err
      | Inr p \<Rightarrow>
          if \<not> page_exists p
          then Inl (ValueError (''Article '' @ quoted title @ '' not found on Wikipedia''))
          else Inr \<lparr>info_title = page_title p,
                    info_url = page_fullurl p,
                    info_summary_length = length (page_summary p),
                    info_content_length = length (page_text p),
                    info_categories = take 10 (page_categories p),
                    info_links_count = length (page_links p)\<rparr>)"

definition get_article_info :: "env \<Rightarrow> string \<Rightarrow> (exn + article_info) \<times> event list" where
  "get_article_info e title =
     (if title = [] \<or> strip title = []
      then (Inl (ValueError ''Article title cannot be empty''), [])
      else (case info_body e title of
              Inl err \<Rightarrow> Inl (reraise_or_wrap ''Failed to get article info: '' err)
            | Inr r \<Rightarrow> Inr r,
            [WikiLookup (strip title)]))"

section \<open>advanced/wikipedia\_server.py\<close>

text \<open>
  The advanced server imports \<^verbatim>\<open>search_wikipedia\<close> and \<^verbatim>\<open>get_article_summary\<close> from
  \<^verbatim>\<open>solution.servers.wikipedia_server\<close> and calls them through their attribute
  \<^verbatim>\<open>fn\<close>. In that module the two names are what the decorator \<^verbatim>\<open>@mcp.tool()\<close> of
  \<^verbatim>\<open>mcp.server.fastmcp\<close> returns, and that decorator registers the function and
  returns it unchanged: a plain function, which has no attribute \<^verbatim>\<open>fn\<close> (the module
  itself calls \<^verbatim>\<open>search_wikipedia("artificial intelligence", 3)\<close> directly in
  \<^verbatim>\<open>test_server\<close>). The tests of the advanced server patch both names with mocks,
  whose \<^verbatim>\<open>fn\<close> can be called. A \<open>tool\<close> is what such a name is bound to, and \<open>fn\<close> is
  the attribute access.
\<close>

datatype 'f tool = PlainFunction 'f | WithFn 'f

definition fn :: "'f tool \<Rightarrow> exn + 'f" where
  "fn t =
     (case t of
        PlainFunction f \<Rightarrow>
          Inl (AttributeError (quoted ''function'' @ '' object has no attribute '' @ quoted ''fn''))
      | WithFn f \<Rightarrow> Inr f)"

type_synonym search_tool = "(env \<Rightarrow> string \<Rightarrow> int \<Rightarrow> (exn + string list) \<times> event list) tool"

type_synonym summary_tool = "(env \<Rightarrow> string \<Rightarrow> int \<Rightarrow> (exn + string) \<times> event list) tool"

text \<open>The numbered list of candidates and the message of the elicitation.\<close>

definition options_text :: "string list \<Rightarrow> string" where
  "options_text search_results =
     join ''\<newline>'' (map (\<lambda>(i, title). str_nat (i + 1) @ ''. '' @ title)
                            (enumerate 0 search_results))"

definition elicit_message :: "string \<Rightarrow> string list \<Rightarrow> string" where
  "elicit_message query search_results =
     ''Found '' @ str_nat (length search_results) @ '' Wikipedia articles for '' @ quoted query
       @ '':\<newline>\<newline>'' @ options_text search_results
       @ ''\<newline>\<newline>Which article would you like?''"

definition invalid_selection :: "string \<Rightarrow> string list \<Rightarrow> string" where
  "invalid_selection user_input search_results =
     ''Invalid selection '' @ quoted user_input
       @ ''. Please enter a title name or number 1-'' @ str_nat (length search_results) @ ''.''"

text \<open>
  The loop \<^verbatim>\<open>for title in search_results\<close>: the first title that contains the
  input, both in lower case.
\<close>

fun title_match :: "string \<Rightarrow> string list \<Rightarrow> string option" where
  "title_match user_input [] = None"
| "title_match user_input (title # titles) =
     (if sublist (lower user_input) (lower title) then Some title
      else title_match user_input titles)"

text \<open>
  The branch \<^verbatim>\<open>result.action == "accept"\<close>, with the name \<^verbatim>\<open>get_article_summary\<close>
  bound to \<open>summary\<close>; \<^verbatim>\<open>get_article_summary.fn(title)\<close> uses the default sentence
  count 3. The number selection runs inside \<^verbatim>\<open>try ... except ValueError: pass\<close>,
  which swallows a \<open>ValueError\<close> of the call made there and no other exception;
  the title selection is outside of it.
\<close>

definition accepted_selection ::
  "summary_tool \<Rightarrow> env \<Rightarrow> string list \<Rightarrow> string \<Rightarrow> (exn + string) \<times> event list" where
  "accepted_selection summary e search_results user_input =
     (case title_match user_input search_results of
        Some title \<Rightarrow>
          (case fn summary of
             Inl err \<Rightarrow> (Inl err, [CtxInfo (''User selected by title match: '' @ title)])
           | Inr get_summary \<Rightarrow>
               (fst (get_summary e title 3),
                CtxInfo (''User selected by title match: '' @ title)
                  # snd (get_summary e title 3)))
      | None \<Rightarrow>
          (case py_int user_input of
             None \<Rightarrow> (Inr (invalid_selection user_input search_results), [])
           | Some choice_num \<Rightarrow>
               if 1 \<le> choice_num \<and> choice_num \<le> int (length search_results)
               then let selected_title = search_results ! nat (choice_num - 1);
                        called = (case fn summary of
                                    Inl err \<Rightarrow> (Inl err, [])
                                  | Inr get_summary \<Rightarrow> get_summary e selected_title 3)
                    in ((case fst called of
                           Inl (ValueError m) \<Rightarrow> Inr (invalid_selection user_input search_results)
                         | Inl (AttributeError m) \<Rightarrow> Inl (AttributeError m)
                         | Inl (MarkupError m) \<Rightarrow> Inl (MarkupError m)
                         | Inl (OtherError m) \<Rightarrow> Inl (OtherError m)
                         | Inr r \<Rightarrow> Inr r),
                        CtxInfo (''User selected by number: '' @ selected_title) # snd called)
               else (Inr (invalid_selection user_input search_results), [])))"

text \<open>
  The body of \<^verbatim>\<open>interactive_search\<close>, with the names \<^verbatim>\<open>search_wikipedia\<close> and
  \<^verbatim>\<open>get_article_summary\<close> bound to \<open>search\<close> and \<open>summary\<close>.
\<close>

definition interactive_search_bound ::
  "search_tool \<Rightarrow> summary_tool \<Rightarrow> env \<Rightarrow> string \<Rightarrow> (exn + string) \<times> event list" where
  "interactive_search_bound search summary e query =
     (if query = [] \<or> strip query = []
      then (Inl (ValueError ''Query cannot be empty''), [])
      else case fn search of
             Inl err \<Rightarrow> (Inl err, [CtxInfo (''Interactive search for: '' @ query)])
           | Inr do_search \<Rightarrow>
               let started = CtxInfo (''Interactive search for: '' @ query)
                               # snd (do_search e query 8)
               in case fst (do_search e query 8) of
                    Inl err \<Rightarrow> (Inl err, started)
                  | Inr search_results \<Rightarrow>
                      if search_results = []
                      then (Inr (''No Wikipedia articles found for '' @ quoted query), started)
                      else if length search_results = 1
                      then (case fn summary of
                              Inl err \<Rightarrow>
                                (Inl err,
                                 started @ [CtxInfo ''Only one result found, retrieving summary...''])
                            | Inr get_summary \<Rightarrow>
                                (fst (get_summary e (search_results ! 0) 3),
                                 started @ [CtxInfo ''Only one result found, retrieving summary...'']
                                   @ snd (get_summary e (search_results ! 0) 3)))
                      else (case elicit e (elicit_message query search_results) of
                              Accept data \<Rightarrow>
                                (fst (accepted_selection summary e search_results (strip data)),
                                 started @ [CtxElicit (elicit_message query search_results)]
                                   @ snd (accepted_selection summary e search_results (strip data)))
                            | Decline \<Rightarrow>
                                (Inr ''Search cancelled or invalid selection.'',
                                 started @ [CtxElicit (elicit_message query search_results)])
                            | Cancel \<Rightarrow>
                                (Inr ''Search cancelled or invalid selection.'',
                                 started @ [CtxElicit (elicit_message query search_results)])))"

text \<open>
  \<^verbatim>\<open>interactive_search\<close> as the repository ships it: both names are the plain
  functions of the basic server.
\<close>

definition interactive_search :: "env \<Rightarrow> string \<Rightarrow> (exn + string) \<times> event list" where
  "interactive_search =
     interactive_search_bound (PlainFunction search_wikipedia) (PlainFunction get_article_summary)"

text \<open>
  The same body with both names bound to objects whose \<^verbatim>\<open>fn\<close> is the function of the
  basic server: the binding that the calls through \<^verbatim>\<open>fn\<close> presuppose and that the
  tests of the advanced server set up with their mocks.
\<close>

definition interactive_search_with_fn :: "env \<Rightarrow> string \<Rightarrow> (exn + string) \<times> event list" where
  "interactive_search_with_fn =
     interactive_search_bound (WithFn search_wikipedia) (WithFn get_article_summary)"

text \<open>
  \<^verbatim>\<open>get_article_with_progress\<close>: the content tool with progress reports and without
  the \<^verbatim>\<open>try\<close> block. Its truncation statements are those of
  \<^verbatim>\<open>get_article_content\<close>, \<open>truncate_content\<close>.
\<close>

definition get_article_with_progress :: "env \<Rightarrow> string \<Rightarrow> int \<Rightarrow> (exn + string) \<times> event list" where
  "get_article_with_progress e title max_length =
     (if title = [] \<or> strip title = []
      then (Inl (ValueError ''Article title cannot be empty''), [])
      else if max_length < 100 \<or> max_length > 10000
      then (Inl (ValueError ''max_length must be between 100 and 10000''), [])
      else let started = [CtxInfo (''Retrieving content for: '' @ title), CtxProgress 0 100,
                          WikiLookup (strip title)]
           in case wiki_page e (strip title) of
                Inl err \<Rightarrow> (Inl err, started)
              | Inr p \<Rightarrow>
                  if \<not> page_exists p
                  then (Inl (ValueError (''Article '' @ quoted title @ '' not found on Wikipedia'')),
                        started)
                  else let content = page_text p
                       in if content = []
                          then (Inl (ValueError (''No content available for article '' @ quoted title)),
                                started @ [CtxProgress 25 100])
                          else if int (length content) > max_length
                          then let result = truncate_content content max_length
                               in (Inr result,
                                   started
                                     @ [CtxProgress 25 100, CtxProgress 50 100,
                                        CtxInfo (''Content is '' @ str_nat (length content)
                                                   @ '' chars, truncating to '' @ str_int max_length),
                                        CtxProgress 75 100, CtxProgress 100 100,
                                        CtxInfo (''Retrieved content for: '' @ title @ '' (''
                                                   @ str_nat (length result) @ '' chars)'')])
                          else (Inr content,
                                started
                                  @ [CtxProgress 25 100, CtxProgress 50 100, CtxProgress 100 100,
                                     CtxInfo (''Retrieved content for: '' @ title @ '' (''
                                                @ str_nat (length content) @ '' chars)'')]))"

section \<open>clients/cli\_client.py\<close>

text \<open>
  The client prints through \<^verbatim>\<open>console = Console()\<close> of the library rich, which reads
  every printed string as console markup. A tag is an opening bracket, one of
  \<open>a\<close>..\<open>z\<close>, \<open>#\<close>, \<open>/\<close>, \<open>@\<close>, then characters other than an opening bracket up to
  the next closing bracket (the library's pattern \<^verbatim>\<open>(\\*)\[([a-z#/@][^[]*?)]\<close>); an odd
  number of backslashes in front of it escapes it. \<open>until_close\<close> and \<open>tag_at\<close> read
  the text of a tag after its opening bracket.
\<close>

definition tag_start :: "char \<Rightarrow> bool" where
  "tag_start c =
     (let n = (of_char c :: nat)
      in (97 \<le> n \<and> n \<le> 122) \<or> c = CHR ''#'' \<or> c = CHR ''/'' \<or> c = CHR ''@'')"

fun until_close :: "string \<Rightarrow> string option" where
  "until_close [] = None"
| "until_close (c # cs) =
     (if c = CHR '']'' then Some []
      else if c = CHR ''['' then None
      else map_option ((#) c) (until_close cs))"

definition tag_at :: "string \<Rightarrow> string option" where
  "tag_at s =
     (case s of
        [] \<Rightarrow> None
      | c # cs \<Rightarrow> if tag_start c then map_option ((#) c) (until_close cs) else None)"

text \<open>
  \<open>first_tag position backslashes s\<close>: the first tag of the markup that is not
  escaped, with the position of its bracket, where \<open>s\<close> is the rest of the text
  from \<open>position\<close> on and \<open>backslashes\<close> counts the backslashes just before it. An
  escaped tag is skipped as a whole.
\<close>

function first_tag :: "nat \<Rightarrow> nat \<Rightarrow> string \<Rightarrow> (nat \<times> string) option" where
  "first_tag position backslashes [] = None"
| "first_tag position backslashes (c # cs) =
     (if c = CHR 0x5C then first_tag (position + 1) (backslashes + 1) cs
      else if c = CHR ''[''
      then (case tag_at cs of
              None \<Rightarrow> first_tag (position + 1) 0 cs
            | Some tag_text \<Rightarrow>
                if even backslashes then Some (position, tag_text)
                else first_tag (position + length tag_text + 2) 0 (drop (length tag_text + 1) cs))
      else first_tag (position + 1) 0 cs)"
  by pat_completeness auto
termination
  by (relation "measure (\<lambda>(position, backslashes, s). length s)") auto

text \<open>
  \<^verbatim>\<open>rich.markup.render\<close> keeps a stack of the opened tags and raises \<open>MarkupError\<close> at
  a closing tag (its name starts with a slash) that finds no tag to close. When
  the first tag of a text is a closing tag the stack is empty, so the text is
  refused, with the message below; a text without a tag is rendered. What becomes
  of a text whose first tag opens a style depends on the style grammar of the
  library and is taken from outside (\<open>styled\<close>). \<open>offset\<close> is the number of
  characters printed in front of the text, in the same string. \<open>None\<close>: the text is
  rendered; \<open>Some m\<close>: \<open>MarkupError\<close> with text \<open>m\<close>.
\<close>

definition closing_tag_error :: "nat \<Rightarrow> string \<Rightarrow> string" where
  "closing_tag_error position tag_text =
     (if strip (tl (takeWhile (\<lambda>c. c \<noteq> CHR ''='') tag_text)) \<noteq> []
      then ''closing tag '' @ quoted (''['' @ tag_text @ '']'') @ '' at position ''
             @ str_nat position @ '' doesn't match any open tag''
      else ''closing tag '' @ quoted ''[/]'' @ '' at position ''
             @ str_nat position @ '' has nothing to close'')"

definition markup_error :: "(nat \<Rightarrow> string \<Rightarrow> string option) \<Rightarrow> nat \<Rightarrow> string \<Rightarrow> string option" where
  "markup_error styled offset s =
     (case first_tag 0 0 s of
        None \<Rightarrow> None
      | Some (position, tag_text) \<Rightarrow>
          (case tag_text of
             [] \<Rightarrow> styled offset s
           | c # cs \<Rightarrow>
               if c = CHR ''/'' then Some (closing_tag_error (offset + position) tag_text)
               else styled offset s))"

text \<open>
  What one pass of the loop of \<^verbatim>\<open>chat_session\<close> meets outside the program.
  \<^verbatim>\<open>console.input\<close> returns the typed line, is interrupted (\<^verbatim>\<open>KeyboardInterrupt\<close>)
  or raises an instance of \<^verbatim>\<open>Exception\<close>, given by its text. \<^verbatim>\<open>agent.run\<close>, when
  the pass calls it with the input and the message history, returns a result,
  raises an instance of \<^verbatim>\<open>Exception\<close>, given by its text, or is interrupted.
  \<^verbatim>\<open>KeyboardInterrupt\<close> is no subclass of \<^verbatim>\<open>Exception\<close>; the source handles it in a
  clause of its own. \<open>styled_markup\<close> is the library's verdict on markup that opens
  a style. \<open>history_display\<close> says whether \<^verbatim>\<open>display_chat_history\<close>, which builds
  a table from the message objects of the agent library and prints it, raises an
  \<^verbatim>\<open>Exception\<close> (\<open>Some\<close> its text) for a given result.
\<close>

datatype console_input = Typed string | InputInterrupt | InputException string

record run_result =
  result_output :: string
  result_new_messages :: "string list"
  result_all_messages :: "string list"

datatype agent_outcome = Returns run_result | Raises string | Interrupted

record turn =
  console_input :: console_input
  agent_run :: "string \<Rightarrow> string list \<Rightarrow> agent_outcome"
  styled_markup :: "nat \<Rightarrow> string \<Rightarrow> string option"
  history_display :: "run_result \<Rightarrow> string option"

text \<open>
  What the loop shows on the console, one constructor for each \<^verbatim>\<open>console.print\<close>
  and each state of the progress display. The fixed texts hold characters outside
  of ASCII, so they are named instead of spelled: \<open>PrintThanks\<close> is the line "Thanks
  for using MCP Research Assistant!", \<open>PrintGoodbye\<close> the line "Goodbye!",
  \<open>PrintError m\<close> the line "Error processing your request: m" and \<open>PrintHint\<close> the
  line "Please try rephrasing your question or check your connection."
\<close>

datatype printed =
    PrintThanks
  | PrintHistory "run_result option"
  | PrintCleared
  | PrintBlank
  | ProgressStarted
  | ProgressComplete
  | ProgressFailed
  | PrintAssistant string
  | PrintGoodbye
  | PrintError string
  | PrintHint

text \<open>
  How a pass leaves the body of the \<^verbatim>\<open>while True\<close> loop: \<^verbatim>\<open>continue\<close> (or its end),
  \<^verbatim>\<open>break\<close>, or an exception that no clause catches.
\<close>

datatype control = Continue | Break | Abort exn

definition get_message_history_for_next_run :: "run_result option \<Rightarrow> string list" where
  "get_message_history_for_next_run last_result =
     (case last_result of Some r \<Rightarrow> result_new_messages r | None \<Rightarrow> [])"

text \<open>
  The clause \<^verbatim>\<open>except Exception as e\<close> of the loop, for an exception with text \<open>m\<close>
  after the pass has shown \<open>shown\<close>. It prints an f-string: 34 characters (a
  newline, a cross mark, " Error processing your request: "), none of them a
  bracket or a backslash, and then \<open>m\<close>, unescaped. A \<open>MarkupError\<close> of that print is
  raised inside the clause, where nothing catches it.
\<close>

definition report_error ::
  "turn \<Rightarrow> run_result option \<Rightarrow> printed list \<Rightarrow> string \<Rightarrow> control \<times> run_result option \<times> printed list" where
  "report_error t last_result shown m =
     (case markup_error (styled_markup t) 34 m of
        Some m' \<Rightarrow> (Abort (MarkupError m'), last_result, shown)
      | None \<Rightarrow> (Continue, last_result, shown @ [PrintError m, PrintHint]))"

text \<open>
  One pass of the loop body, from \<^verbatim>\<open>self.last_result\<close> to the new one. The inner
  \<^verbatim>\<open>except Exception\<close> marks the progress display as failed and raises again; the
  answer of the agent is printed in a panel, as markup too, after the result has
  been stored.
\<close>

definition chat_step :: "run_result option \<Rightarrow> turn \<Rightarrow> control \<times> run_result option \<times> printed list" where
  "chat_step last_result t =
     (case console_input t of
        InputInterrupt \<Rightarrow> (Break, last_result, [PrintGoodbye])
      | InputException m \<Rightarrow> report_error t last_result [] m
      | Typed line \<Rightarrow>
          let user_input = strip line;
              user_input_lower = lower user_input
          in if user_input_lower \<in> set [''quit'', ''exit'', ''q'']
             then (Break, last_result, [PrintThanks])
             else if user_input_lower \<in> set [''history'', ''hist'', ''h'']
             then (case last_result of
                     None \<Rightarrow> (Continue, last_result, [PrintHistory last_result, PrintBlank])
                   | Some r \<Rightarrow>
                       (case history_display t r of
                          None \<Rightarrow> (Continue, last_result, [PrintHistory last_result, PrintBlank])
                        | Some m \<Rightarrow> report_error t last_result [] m))
             else if user_input_lower \<in> set [''clear'', ''clear history'', ''reset'']
             then (Continue, None, [PrintCleared, PrintBlank])
             else if user_input = []
             then (Continue, last_result, [])
             else (case agent_run t user_input (get_message_history_for_next_run last_result) of
                     Returns result \<Rightarrow>
                       (case markup_error (styled_markup t) 0 (result_output result) of
                          None \<Rightarrow>
                            (Continue, Some result,
                             [ProgressStarted, ProgressComplete, PrintBlank,
                              PrintAssistant (result_output result), PrintBlank])
                        | Some m \<Rightarrow>
                            report_error t (Some result)
                              [ProgressStarted, ProgressComplete, PrintBlank] m)
                   | Raises m \<Rightarrow> report_error t last_result [ProgressStarted, ProgressFailed] m
                   | Interrupted \<Rightarrow>
                       (Break, last_result, [ProgressStarted, PrintGoodbye])))"

text \<open>
  The loop over the passes that the outside world has so far provided. It ends
  \<open>Terminated\<close> after a \<^verbatim>\<open>break\<close> and \<open>Failed\<close> when an exception leaves it; when
  every provided pass is done and none left the loop, the loop is back at
  \<^verbatim>\<open>console.input\<close>, \<open>AwaitingInput\<close>.
\<close>

datatype loop_state = AwaitingInput | Terminated | Failed exn

fun chat_loop :: "run_result option \<Rightarrow> turn list \<Rightarrow> loop_state \<times> run_result option \<times> printed list" where
  "chat_loop last_result [] = (AwaitingInput, last_result, [])"
| "chat_loop last_result (t # ts) =
     (case chat_step last_result t of
        (Break, last_result', out) \<Rightarrow> (Terminated, last_result', out)
      | (Abort err, last_result', out) \<Rightarrow> (Failed err, last_result', out)
      | (Continue, last_result', out) \<Rightarrow>
          (case chat_loop last_result' ts of
             (state, last_result'', out') \<Rightarrow> (state, last_result'', out @ out')))"

definition sample_turn :: "string \<Rightarrow> agent_outcome \<Rightarrow> turn" where
  "sample_turn line outcome =
     \<lparr>console_input = Typed line, agent_run = (\<lambda>i h. outcome),
      styled_markup = (\<lambda>offset s. None), history_display = (\<lambda>r. None)\<rparr>"

section \<open>Notions of the specification\<close>

text \<open>
  \<open>last_index c s i\<close>: \<open>i\<close> is the index of the last \<open>c\<close> in \<open>s\<close>, and \<open>-1\<close>
  when \<open>s\<close> holds no \<open>c\<close>.
\<close>

definition last_index :: "char \<Rightarrow> string \<Rightarrow> int \<Rightarrow> bool" where
  "last_index c s i =
     (if c \<in> set s
      then 0 \<le> i \<and> i < int (length s) \<and> s ! nat i = c \<and> c \<notin> set (drop (nat i + 1) s)
      else i = - 1)"

section \<open>Sample environments\<close>

text \<open>
  Concrete pages, environments and texts on which the theorems below are
  evaluated: every lookup delivers the given page, every search the given titles,
  every elicitation the given answer.
\<close>

definition sample_page :: "string \<Rightarrow> page" where
  "sample_page body =
     \<lparr>page_exists = True, page_title = ''Test Article'',
      page_fullurl = ''https://en.wikipedia.org/wiki/Test_Article'',
      page_summary = body, page_text = body, page_categories = [], page_links = []\<rparr>"

definition sample_env :: "page \<Rightarrow> string list \<Rightarrow> elicit_result \<Rightarrow> env" where
  "sample_env p titles reply =
     \<lparr>wiki_page = (\<lambda>t. Inr p), search_api = (\<lambda>q l. Pages titles), elicit = (\<lambda>m. reply)\<rparr>"

definition missing_page :: page where
  "missing_page = (sample_page [])\<lparr>page_exists := False\<rparr>"

definition python_titles :: "string list" where
  "python_titles = [''Python (programming language)'', ''Python (mythology)'', ''Python (snake)'']"

definition intro_text :: string where
  "intro_text = ''Python is a language.  It is popular.\<newline>It was created by Guido. More''"

definition clean_break_text :: string where
  "clean_break_text = replicate 95 CHR ''A'' @ ''. More content here.''"

definition hard_cut_text :: string where
  "hard_cut_text = replicate 101 CHR ''A''"

section \<open>Python strings: facts\<close>

lemma rfind_absent: "c \<notin> set s \<Longrightarrow> rfind c s = - 1"
  by (induction s) (auto simp: Let_def)

lemma rfind_range: "- 1 \<le> rfind c s \<and> rfind c s < int (length s)"
  by (induction s) (auto simp: Let_def)

lemma rfind_last_index: "last_index c s (rfind c s)"
proof (induction s)
  case Nil
  show ?case by (simp add: last_index_def)
next
  case (Cons x xs)
  show ?case
  proof (cases "c \<in> set xs")
    case True
    with Cons have ih: "0 \<le> rfind c xs" "rfind c xs < int (length xs)"
      "xs ! nat (rfind c xs) = c" "c \<notin> set (drop (nat (rfind c xs) + 1) xs)"
      by (auto simp: last_index_def)
    then show ?thesis using True
      by (auto simp: last_index_def Let_def nat_add_distrib)
  next
    case False
    then have "rfind c xs = - 1" by (rule rfind_absent)
    then show ?thesis using False
      by (auto simp: last_index_def Let_def)
  qed
qed

lemma truncate_content_unfold:
  "truncate_content content m =
     (if 4 * m < 5 * max (rfind CHR ''.'' (slice_to m content)) (rfind CHR ''\<newline>'' (slice_to m content))
      then slice_to (max (rfind CHR ''.'' (slice_to m content)) (rfind CHR ''\<newline>'' (slice_to m content)) + 1) content
             @ ''\<newline>\<newline>[Content truncated...]''
      else slice_to m content @ ''...\<newline>\<newline>[Content truncated...]'')"
  unfolding truncate_content_def Let_def by (rule refl)

lemma length_truncate_content:
  assumes "0 \<le> m" and "m < int (length content)"
  shows "length (truncate_content content m) \<le> nat m + 27"
proof -
  define t where "t = slice_to m content"
  define b where "b = max (rfind CHR ''.'' t) (rfind CHR ''\<newline>'' t)"
  have len: "length t = nat m" using assms by (simp add: slice_to_def t_def)
  have "rfind CHR ''.'' t < int (length t)" "rfind CHR ''\<newline>'' t < int (length t)"
    using rfind_range by blast+
  then have "b < int (length t)" unfolding b_def by linarith
  then have b: "b < m" using len assms by simp
  have eq: "truncate_content content m =
     (if 4 * m < 5 * b then slice_to (b + 1) content @ ''\<newline>\<newline>[Content truncated...]''
      else t @ ''...\<newline>\<newline>[Content truncated...]'')"
    unfolding truncate_content_unfold b_def t_def by (rule refl)
  show ?thesis
  proof (cases "4 * m < 5 * b")
    case True
    then have "0 \<le> b + 1" using assms by linarith
    then have "length (slice_to (b + 1) content) \<le> nat m" using b
      by (simp add: slice_to_def)
    with True show ?thesis unfolding eq by simp
  next
    case False
    with len show ?thesis unfolding eq by simp
  qed
qed

lemma suffix_truncate_content:
  "suffix ''\<newline>\<newline>[Content truncated...]'' (truncate_content content m)"
proof -
  have a: "suffix ''\<newline>\<newline>[Content truncated...]'' (xs @ ''\<newline>\<newline>[Content truncated...]'')" for xs :: string
    by (rule suffixI) (rule refl)
  have b: "suffix ''\<newline>\<newline>[Content truncated...]'' (xs @ ''...\<newline>\<newline>[Content truncated...]'')" for xs :: string
    by (rule suffixI[where zs = "xs @ ''...''"]) simp
  show ?thesis
    unfolding truncate_content_def Let_def using a b by (simp only: if_split) blast
qed

lemma content_long:
  assumes "strip title \<noteq> []"
    and "100 \<le> max_length" and "max_length \<le> 10000"
    and "wiki_page e (strip title) = Inr p" and "page_exists p"
    and "page_text p = content"
    and "max_length < int (length content)"
  shows "fst (get_article_content e title max_length) = Inr (truncate_content content max_length)"
proof -
  from assms(1) have "title \<noteq> []" by (auto simp: strip_def)
  moreover from assms have "content \<noteq> []" by auto
  ultimately show ?thesis using assms
    by (simp add: get_article_content_def content_body_def)
qed

lemma progress_long:
  assumes "strip title \<noteq> []"
    and "100 \<le> max_length" and "max_length \<le> 10000"
    and "wiki_page e (strip title) = Inr p" and "page_exists p"
    and "page_text p = content"
    and "max_length < int (length content)"
  shows "fst (get_article_with_progress e title max_length)
           = Inr (truncate_content content max_length)"
proof -
  from assms(1) have "title \<noteq> []" by (auto simp: strip_def)
  moreover from assms have "content \<noteq> []" by auto
  ultimately show ?thesis using assms
    by (simp add: get_article_with_progress_def Let_def)
qed

lemma last_index_unique:
  assumes "last_index c s i" and "last_index c s j"
  shows "i = j"
proof (cases "c \<in> set s")
  case False
  with assms show ?thesis by (simp add: last_index_def)
next
  case True
  with assms have i: "0 \<le> i" "i < int (length s)" "s ! nat i = c" "c \<notin> set (drop (nat i + 1) s)"
    and j: "0 \<le> j" "j < int (length s)" "s ! nat j = c" "c \<notin> set (drop (nat j + 1) s)"
    by (simp_all add: last_index_def)
  have no_later: "\<not> a < b" if "0 \<le> a" "b < int (length s)" "s ! nat b = c"
    "c \<notin> set (drop (nat a + 1) s)" for a b
  proof
    assume "a < b"
    define k where "k = nat b - (nat a + 1)"
    from \<open>a < b\<close> that(1) have k: "nat b = (nat a + 1) + k"
      unfolding k_def by linarith
    have "nat b < length s" using that \<open>a < b\<close> by linarith
    then have "drop (nat a + 1) s ! k = s ! nat b" and "k < length (drop (nat a + 1) s)"
      using k by simp_all
    then have "s ! nat b \<in> set (drop (nat a + 1) s)"
      by (metis nth_mem)
    with that show False by simp
  qed
  from no_later[OF i(1) j(2) j(3) i(4)] no_later[OF j(1) i(2) i(3) j(4)]
  show ?thesis by linarith
qed

section \<open>Content retrieval\<close>

text \<open>
  C1. When the lookup delivers an existing article whose text is longer than
  \<open>max_length\<close>, \<open>get_article_content\<close> takes the prefix of length \<open>max_length\<close>
  and the larger of the indices of its last period and its last newline as break
  point. If the break point exceeds 80 percent of \<open>max_length\<close> the result is the
  text up to and including the break point, followed by the truncation marker on
  a new paragraph; otherwise it is the prefix, followed by three dots and the same
  marker. \<open>get_article_with_progress\<close> returns the same.
\<close>

theorem get_article_content_truncation:
  assumes "strip title \<noteq> []"
    and "100 \<le> max_length" and "max_length \<le> 10000"
    and "wiki_page e (strip title) = Inr p" and "page_exists p"
    and "page_text p = content"
    and "max_length < int (length content)"
    and "last_index CHR ''.'' (take (nat max_length) content) last_period"
    and "last_index CHR ''\<newline>'' (take (nat max_length) content) last_newline"
  shows "fst (get_article_content e title max_length) =
           Inr (if 4 * max_length < 5 * max last_period last_newline
                then take (nat (max last_period last_newline + 1)) content
                       @ ''\<newline>\<newline>[Content truncated...]''
                else take (nat max_length) content @ ''...'' @ ''\<newline>\<newline>[Content truncated...]'')
       \<and> fst (get_article_with_progress e title max_length)
           = fst (get_article_content e title max_length)"
proof -
  have t: "slice_to max_length content = take (nat max_length) content"
    using assms(2) by (simp add: slice_to_def)
  have lp: "rfind CHR ''.'' (take (nat max_length) content) = last_period"
    by (rule last_index_unique[OF rfind_last_index assms(8)])
  have ln: "rfind CHR ''\<newline>'' (take (nat max_length) content) = last_newline"
    by (rule last_index_unique[OF rfind_last_index assms(9)])
  have "truncate_content content max_length =
          (if 4 * max_length < 5 * max last_period last_newline
           then take (nat (max last_period last_newline + 1)) content
                  @ ''\<newline>\<newline>[Content truncated...]''
           else take (nat max_length) content @ ''...'' @ ''\<newline>\<newline>[Content truncated...]'')"
  proof (cases "4 * max_length < 5 * max last_period last_newline")
    case True
    then have "0 \<le> max last_period last_newline + 1" using assms(2) by linarith
    then have "slice_to (max last_period last_newline + 1) content
                 = take (nat (max last_period last_newline + 1)) content"
      by (simp add: slice_to_def)
    with True show ?thesis unfolding truncate_content_unfold t lp ln by simp
  next
    case False
    then show ?thesis unfolding truncate_content_unfold t lp ln by simp
  qed
  with content_long[OF assms(1-7)] progress_long[OF assms(1-7)] show ?thesis by simp
qed

theorem get_article_content_truncation_witness:
  "fst (get_article_content (sample_env (sample_page clean_break_text) [] Decline) ''Test Article'' 100)
     = Inr (replicate 95 CHR ''A'' @ ''.'' @ ''\<newline>\<newline>[Content truncated...]'')
   \<and> fst (get_article_with_progress (sample_env (sample_page clean_break_text) [] Decline)
            ''Test Article'' 100)
     = fst (get_article_content (sample_env (sample_page clean_break_text) [] Decline)
              ''Test Article'' 100)"
proof -
  let ?e = "sample_env (sample_page clean_break_text) [] Decline"
  have 1: "strip ''Test Article'' \<noteq> []" by code_simp
  have 4: "wiki_page ?e (strip ''Test Article'') = Inr (sample_page clean_break_text)"
    by (simp add: sample_env_def)
  have 5: "page_exists (sample_page clean_break_text)" by (simp add: sample_page_def)
  have 6: "page_text (sample_page clean_break_text) = clean_break_text" by (simp add: sample_page_def)
  have 7: "100 < int (length clean_break_text)" by (simp add: clean_break_text_def)
  have 8: "last_index CHR ''.'' (take (nat 100) clean_break_text) 95" by code_simp
  have 9: "last_index CHR ''\<newline>'' (take (nat 100) clean_break_text) (- 1)" by code_simp
  have "take (nat (max 95 (- 1) + 1)) clean_break_text = replicate 95 CHR ''A'' @ ''.''"
    by code_simp
  with get_article_content_truncation[OF 1 _ _ 4 5 6 7 8 9] show ?thesis by simp
qed

text \<open>
  C3. When the title is not blank, the bound lies in 100..10000 and the lookup
  delivers an existing article whose non-empty text is no longer than the bound,
  \<open>get_article_content\<close> returns that text unchanged.
\<close>

theorem get_article_content_short_unchanged:
  assumes "strip title \<noteq> []"
    and "100 \<le> max_length" and "max_length \<le> 10000"
    and "wiki_page e (strip title) = Inr p" and "page_exists p"
    and "page_text p = content" and "content \<noteq> []"
    and "int (length content) \<le> max_length"
  shows "fst (get_article_content e title max_length) = Inr content"
proof -
  from assms(1) have "title \<noteq> []"
    by (auto simp: strip_def)
  with assms show ?thesis
    by (simp add: get_article_content_def content_body_def)
qed

theorem get_article_content_short_unchanged_witness:
  "fst (get_article_content (sample_env (sample_page ''Short article content.'') [] Decline)
          ''Test Article'' 2000)
     = Inr ''Short article content.''"
proof -
  let ?p = "sample_page ''Short article content.''"
  have 1: "strip ''Test Article'' \<noteq> []" by code_simp
  have 4: "wiki_page (sample_env ?p [] Decline) (strip ''Test Article'') = Inr ?p"
    by (simp add: sample_env_def)
  have 5: "page_exists ?p" by (simp add: sample_page_def)
  have 6: "page_text ?p = ''Short article content.''" by (simp add: sample_page_def)
  show ?thesis
    by (rule get_article_content_short_unchanged[OF 1 _ _ 4 5 6]) simp_all
qed

text \<open>
  C2 (as stated it fails: see the counterexample). When the lookup delivers an
  existing article whose text is longer than \<open>max_length\<close>, the returned string is
  at most \<open>max_length\<close> plus the three dots plus the truncation marker long, and it
  ends with the truncation marker.
\<close>

theorem get_article_content_length_bound:
  assumes "strip title \<noteq> []"
    and "100 \<le> max_length" and "max_length \<le> 10000"
    and "wiki_page e (strip title) = Inr p" and "page_exists p"
    and "page_text p = content"
    and "max_length < int (length content)"
  shows "\<exists>r. fst (get_article_content e title max_length) = Inr r
           \<and> length r \<le> nat max_length + length ''...'' + length ''\<newline>\<newline>[Content truncated...]''
           \<and> suffix ''\<newline>\<newline>[Content truncated...]'' r"
proof -
  have "0 \<le> max_length" using assms(2) by simp
  from length_truncate_content[OF this assms(7)]
  have "length (truncate_content content max_length)
          \<le> nat max_length + length ''...'' + length ''\<newline>\<newline>[Content truncated...]''"
    by simp
  with content_long[OF assms] suffix_truncate_content show ?thesis
    by blast
qed

theorem get_article_content_length_bound_witness:
  "\<exists>r. fst (get_article_content (sample_env (sample_page clean_break_text) [] Decline) ''Test Article'' 100) = Inr r
       \<and> length r \<le> nat 100 + length ''...'' + length ''\<newline>\<newline>[Content truncated...]''
       \<and> suffix ''\<newline>\<newline>[Content truncated...]'' r"
proof -
  let ?e = "sample_env (sample_page clean_break_text) [] Decline"
  have 1: "strip ''Test Article'' \<noteq> []" by code_simp
  have 4: "wiki_page ?e (strip ''Test Article'') = Inr (sample_page clean_break_text)"
    by (simp add: sample_env_def)
  have 5: "page_exists (sample_page clean_break_text)" by (simp add: sample_page_def)
  have 6: "page_text (sample_page clean_break_text) = clean_break_text" by (simp add: sample_page_def)
  have 7: "100 < int (length clean_break_text)" by (simp add: clean_break_text_def)
  show ?thesis by (rule get_article_content_length_bound[OF 1 _ _ 4 5 6 7]) simp_all
qed

theorem get_article_content_length_bound_counterexample:
  "int (length hard_cut_text) > 100
   \<and> fst (get_article_content (sample_env (sample_page hard_cut_text) [] Decline) ''Test Article'' 100)
       = Inr (replicate 100 CHR ''A'' @ ''...\<newline>\<newline>[Content truncated...]'')
   \<and> \<not> length (replicate 100 CHR ''A'' @ ''...\<newline>\<newline>[Content truncated...]'')
         \<le> 100 + length ''\<newline>\<newline>[Content truncated...]''"
proof -
  let ?e = "sample_env (sample_page hard_cut_text) [] Decline"
  have 1: "strip ''Test Article'' \<noteq> []" by code_simp
  have 4: "wiki_page ?e (strip ''Test Article'') = Inr (sample_page hard_cut_text)"
    by (simp add: sample_env_def)
  have 5: "page_exists (sample_page hard_cut_text)" by (simp add: sample_page_def)
  have 6: "page_text (sample_page hard_cut_text) = hard_cut_text" by (simp add: sample_page_def)
  have 7: "100 < int (length hard_cut_text)" by (simp add: hard_cut_text_def)
  have t: "truncate_content hard_cut_text 100
             = replicate 100 CHR ''A'' @ ''...\<newline>\<newline>[Content truncated...]''"
    by code_simp
  have "fst (get_article_content ?e ''Test Article'' 100) = Inr (truncate_content hard_cut_text 100)"
    by (rule content_long[OF 1 _ _ 4 5 6 7]) simp_all
  with t 7 show ?thesis by simp
qed

section \<open>Argument validation\<close>

text \<open>
  C7. A query that is empty after trimming, or a limit outside 1..10, makes
  \<open>search_wikipedia\<close> fail with its invalid-argument \<open>ValueError\<close> and issue no
  call; a title that is empty after trimming, or a sentence count outside 1..10,
  makes \<open>get_article_summary\<close> fail likewise before any lookup.
\<close>

theorem invalid_arguments_fail_before_any_call:
  "(strip query = [] \<or> limit < 1 \<or> limit > 10 \<longrightarrow>
      search_wikipedia e query limit =
        (Inl (ValueError (if strip query = [] then ''Query cannot be empty''
                          else ''Limit must be between 1 and 10'')), []))
   \<and> (strip title = [] \<or> sentences < 1 \<or> sentences > 10 \<longrightarrow>
      get_article_summary e title sentences =
        (Inl (ValueError (if strip title = [] then ''Article title cannot be empty''
                          else ''Sentences must be between 1 and 10'')), []))"
proof -
  have q: "query = [] \<or> strip query = [] \<longleftrightarrow> strip query = []"
    by (auto simp: strip_def)
  have t: "title = [] \<or> strip title = [] \<longleftrightarrow> strip title = []"
    by (auto simp: strip_def)
  show ?thesis
    unfolding search_wikipedia_def get_article_summary_def q t by simp
qed

theorem invalid_arguments_fail_before_any_call_witness:
  "search_wikipedia (sample_env missing_page [] Decline) ''   '' 5
     = (Inl (ValueError ''Query cannot be empty''), [])
   \<and> search_wikipedia (sample_env missing_page [] Decline) ''python'' 11
     = (Inl (ValueError ''Limit must be between 1 and 10''), [])
   \<and> get_article_summary (sample_env missing_page [] Decline) '''' 3
     = (Inl (ValueError ''Article title cannot be empty''), [])
   \<and> get_article_summary (sample_env missing_page [] Decline) ''Python'' 0
     = (Inl (ValueError ''Sentences must be between 1 and 10''), [])"
proof -
  let ?e = "sample_env missing_page [] Decline"
  have a: "strip ''   '' = []" by code_simp
  have b: "strip ''python'' \<noteq> []" by code_simp
  have c: "strip '''' = []" by code_simp
  have d: "strip ''Python'' \<noteq> []" by code_simp
  note 1 = invalid_arguments_fail_before_any_call[of "''   ''" 5 ?e "''''" 3]
  note 2 = invalid_arguments_fail_before_any_call[of "''python''" 11 ?e "''Python''" 0]
  from 1 2 show ?thesis unfolding a c by (simp only: b d) simp
qed

section \<open>Articles that do not exist\<close>

lemma lower_append: "lower (xs @ ys) = lower xs @ lower ys"
  by (simp add: lower_def)

lemma not_found_message_reraised:
  "reraise_or_wrap pre (ValueError (''Article '' @ quoted title @ '' not found on Wikipedia''))
     = ValueError (''Article '' @ quoted title @ '' not found on Wikipedia'')"
proof -
  have l: "lower '' not found on Wikipedia'' = '' '' @ ''not found'' @ '' on wikipedia''"
    by code_simp
  have "sublist ''not found''
          ((lower ''Article '' @ lower (quoted title) @ '' '') @ ''not found'' @ '' on wikipedia'')"
    by (rule sublist_appendI)
  then have "sublist ''not found''
          (lower (''Article '' @ quoted title @ '' not found on Wikipedia''))"
    unfolding lower_append l by simp
  then show ?thesis
    unfolding reraise_or_wrap_def str_exn.simps by (rule if_P)
qed

lemma title_in_not_found_message:
  "sublist title (''Article '' @ quoted title @ '' not found on Wikipedia'')"
proof -
  have "sublist title ((''Article '' @ [CHR 0x27]) @ title @ ([CHR 0x27] @ '' not found on Wikipedia''))"
    by (rule sublist_appendI)
  then show ?thesis by (simp add: quoted_def)
qed

lemma strip_nonempty: "strip title \<noteq> [] \<Longrightarrow> \<not> (title = [] \<or> strip title = [])"
  by (auto simp: strip_def)

text \<open>
  C8. When the lookup is reached (the title is not blank and the numeric argument
  is in range) and the source reports that the article does not exist, the three
  tools fail with the same not-found \<open>ValueError\<close>, whose message contains the
  requested title.
\<close>

theorem missing_article_not_found:
  assumes "strip title \<noteq> []"
    and "wiki_page e (strip title) = Inr p" and "\<not> page_exists p"
    and "1 \<le> sentences" and "sentences \<le> 10"
    and "100 \<le> max_length" and "max_length \<le> 10000"
    and "msg = ''Article '' @ quoted title @ '' not found on Wikipedia''"
  shows "fst (get_article_summary e title sentences) = Inl (ValueError msg)
       \<and> fst (get_article_content e title max_length) = Inl (ValueError msg)
       \<and> fst (get_article_info e title) = Inl (ValueError msg)
       \<and> sublist title msg"
proof -
  note v = strip_nonempty[OF assms(1)]
  have s: "summary_body e title sentences = Inl (ValueError msg)"
    using assms by (simp add: summary_body_def)
  have c: "content_body e title max_length = Inl (ValueError msg)"
    using assms by (simp add: content_body_def)
  have i: "info_body e title = Inl (ValueError msg)"
    using assms by (simp add: info_body_def)
  have r: "reraise_or_wrap pre (ValueError msg) = ValueError msg" for pre
    unfolding assms(8) by (rule not_found_message_reraised)
  have 1: "fst (get_article_summary e title sentences) = Inl (ValueError msg)"
    using v assms(4,5) by (simp add: get_article_summary_def s r)
  have 2: "fst (get_article_content e title max_length) = Inl (ValueError msg)"
    using v assms(6,7) by (simp add: get_article_content_def c r)
  have 3: "fst (get_article_info e title) = Inl (ValueError msg)"
    using v by (simp add: get_article_info_def i r)
  have 4: "sublist title msg"
    unfolding assms(8) by (rule title_in_not_found_message)
  from 1 2 3 4 show ?thesis by blast
qed

theorem missing_article_not_found_witness:
  "fst (get_article_summary (sample_env missing_page [] Decline) ''NonExistentArticle123456'' 3)
     = Inl (ValueError (''Article '' @ quoted ''NonExistentArticle123456'' @ '' not found on Wikipedia''))
   \<and> fst (get_article_content (sample_env missing_page [] Decline) ''NonExistentArticle123456'' 2000)
     = Inl (ValueError (''Article '' @ quoted ''NonExistentArticle123456'' @ '' not found on Wikipedia''))
   \<and> fst (get_article_info (sample_env missing_page [] Decline) ''NonExistentArticle123456'')
     = Inl (ValueError (''Article '' @ quoted ''NonExistentArticle123456'' @ '' not found on Wikipedia''))
   \<and> sublist ''NonExistentArticle123456''
        (''Article '' @ quoted ''NonExistentArticle123456'' @ '' not found on Wikipedia'')"
proof -
  have 1: "strip ''NonExistentArticle123456'' \<noteq> []" by code_simp
  have 2: "wiki_page (sample_env missing_page [] Decline) (strip ''NonExistentArticle123456'')
             = Inr missing_page"
    by (simp add: sample_env_def)
  have 3: "\<not> page_exists missing_page" by (simp add: missing_page_def)
  show ?thesis
    by (rule missing_article_not_found[OF 1 2 3, of 3 2000]) simp_all
qed

section \<open>Summary retrieval\<close>

lemma strip_Nil_iff: "strip s = [] \<longleftrightarrow> list_all isspace s"
proof -
  have "strip s = [] \<longleftrightarrow> dropWhile isspace s = []"
  proof
    assume "strip s = []"
    then have "dropWhile isspace (rev (dropWhile isspace s)) = []" by (simp add: strip_def)
    then have a: "\<forall>x\<in>set (dropWhile isspace s). isspace x" by (simp add: dropWhile_eq_Nil_conv)
    show "dropWhile isspace s = []"
    proof (rule ccontr)
      assume n: "dropWhile isspace s \<noteq> []"
      then have "\<not> isspace (hd (dropWhile isspace s))" by (rule hd_dropWhile)
      moreover have "hd (dropWhile isspace s) \<in> set (dropWhile isspace s)" using n by simp
      ultimately show False using a by blast
    qed
  next
    assume "dropWhile isspace s = []"
    then show "strip s = []" by (simp only: strip_def rev.simps dropWhile.simps)
  qed
  then show ?thesis by (simp add: dropWhile_eq_Nil_conv list_all_iff)
qed

lemma set_strip: "set (strip s) \<subseteq> set s"
proof -
  have "set (strip s) = set (dropWhile isspace (rev (dropWhile isspace s)))"
    by (simp add: strip_def)
  also have "\<dots> \<subseteq> set (rev (dropWhile isspace s))" by (rule set_dropWhileD[THEN subsetI]) 
  also have "\<dots> \<subseteq> set s" by (auto dest: set_dropWhileD)
  finally show ?thesis .
qed

lemma split_not_Nil: "split sep s \<noteq> []"
  by (induction s) (auto simp: Let_def)

lemma split_no_sep: "f \<in> set (split sep s) \<Longrightarrow> sep \<notin> set f"
proof (induction s arbitrary: f)
  case Nil
  then show ?case by simp
next
  case (Cons c cs)
  have ne: "split sep cs \<noteq> []" by (rule split_not_Nil)
  then have hd_in: "hd (split sep cs) \<in> set (split sep cs)" by simp
  show ?case
  proof (cases "c = sep")
    case True
    with Cons show ?thesis by (auto simp: Let_def)
  next
    case False
    with Cons.prems have "f = c # hd (split sep cs) \<or> f \<in> set (tl (split sep cs))"
      by (simp add: Let_def)
    then show ?thesis
    proof
      assume "f = c # hd (split sep cs)"
      with False Cons.IH[OF hd_in] show ?thesis by auto
    next
      assume "f \<in> set (tl (split sep cs))"
      then have "f \<in> set (split sep cs)" using ne by (metis list.set_sel(2))
      then show ?thesis by (rule Cons.IH)
    qed
  qed
qed

lemma last_join:
  assumes "ps \<noteq> []" and "last ps \<noteq> []"
  shows "join sep ps \<noteq> [] \<and> last (join sep ps) = last (last ps)"
  using assms
proof (induction sep ps rule: join.induct)
  case (1 sep)
  then show ?case by simp
next
  case (2 sep p)
  then show ?case by simp
next
  case (3 sep p q ps)
  then show ?case by simp
qed

lemma suffix_single: "suffix [c] r \<longleftrightarrow> r \<noteq> [] \<and> last r = c"
proof
  assume "suffix [c] r"
  then obtain zs where "r = zs @ [c]" by (auto simp: suffix_def)
  then show "r \<noteq> [] \<and> last r = c" by simp
next
  assume "r \<noteq> [] \<and> last r = c"
  then have "r = butlast r @ [c]" by auto
  then show "suffix [c] r" by (rule suffixI)
qed

lemma limit_sentences_eq:
  assumes "0 \<le> sentences"
    and "kept = take (nat sentences)
                 (map strip (filter (\<lambda>f. \<not> list_all isspace f) (split CHR ''.'' summary)))"
  shows "limit_sentences summary sentences = (if kept = [] then [] else join ''. '' kept @ ''.'')"
    and "kept \<noteq> [] \<Longrightarrow> join ''. '' kept \<noteq> [] \<and> last (join ''. '' kept) \<noteq> CHR ''.''"
proof -
  let ?frags = "filter (\<lambda>f. \<not> list_all isspace f) (split CHR ''.'' summary)"
  have f: "filter (\<lambda>s. strip s \<noteq> []) (split CHR ''.'' summary) = ?frags"
    by (simp add: strip_Nil_iff)
  have sl: "slice_to sentences (map strip ?frags) = kept"
    using assms by (simp add: slice_to_def)
  have unfold: "limit_sentences summary sentences =
      (if join ''. '' kept \<noteq> [] \<and> \<not> suffix ''.'' (join ''. '' kept)
       then join ''. '' kept @ ''.'' else join ''. '' kept)"
    unfolding limit_sentences_def Let_def f sl by (rule refl)
  have elems: "g \<noteq> [] \<and> CHR ''.'' \<notin> set g" if "g \<in> set kept" for g
  proof -
    from that have "g \<in> set (map strip ?frags)"
      unfolding assms(2) by (rule in_set_takeD)
    then obtain f where f: "f \<in> set (split CHR ''.'' summary)" "\<not> list_all isspace f" "g = strip f"
      by auto
    from f(2,3) have "g \<noteq> []" by (simp add: strip_Nil_iff)
    moreover from split_no_sep[OF f(1)] set_strip[of f] f(3) have "CHR ''.'' \<notin> set g" by blast
    ultimately show ?thesis by simp
  qed
  show last: "join ''. '' kept \<noteq> [] \<and> last (join ''. '' kept) \<noteq> CHR ''.''" if "kept \<noteq> []"
  proof -
    from that have "last kept \<in> set kept" by simp
    from elems[OF this] have ne: "last kept \<noteq> []" and nd: "CHR ''.'' \<notin> set (last kept)" by simp_all
    from ne have "last (last kept) \<in> set (last kept)" by simp
    with nd have "last (last kept) \<noteq> CHR ''.''" by metis
    with last_join[OF that ne, of "''. ''"] show ?thesis by simp
  qed
  show "limit_sentences summary sentences = (if kept = [] then [] else join ''. '' kept @ ''.'')"
  proof (cases "kept = []")
    case True
    then show ?thesis unfolding unfold by simp
  next
    case False
    from last[OF False] have "join ''. '' kept \<noteq> []" "\<not> suffix ''.'' (join ''. '' kept)"
      by (simp_all add: suffix_single)
    with False show ?thesis unfolding unfold by simp
  qed
qed

lemma summary_found:
  assumes "strip title \<noteq> []" and "1 \<le> sentences" and "sentences \<le> 10"
    and "wiki_page e (strip title) = Inr p" and "page_exists p"
  shows "fst (get_article_summary e title sentences) =
           (if page_summary p = []
            then Inl (reraise_or_wrap ''Failed to get article summary: ''
                        (ValueError (''No summary available for article '' @ quoted title)))
            else Inr (limit_sentences (page_summary p) sentences))"
  using strip_nonempty[OF assms(1)] assms(2-)
  by (simp add: get_article_summary_def summary_body_def)

text \<open>
  C4 (as stated it fails: see the counterexample). For a non-empty raw summary and
  a sentence count in 1..10, \<open>get_article_summary\<close> splits the text on periods,
  discards the fragments that are empty or whitespace only, trims the others,
  keeps the first \<open>sentences\<close> of them and joins them with a period and a space.
  When a fragment is kept the result is that text with one period appended, and
  it ends with exactly one period; when none is kept the result is the empty
  string. An empty raw summary makes the tool fail with a \<open>ValueError\<close> whose
  message ends with the no-summary text.
\<close>

theorem get_article_summary_sentences:
  assumes "strip title \<noteq> []" and "1 \<le> sentences" and "sentences \<le> 10"
    and "wiki_page e (strip title) = Inr p" and "page_exists p"
    and "page_summary p = summary"
    and "kept = take (nat sentences)
                 (map strip (filter (\<lambda>f. \<not> list_all isspace f) (split CHR ''.'' summary)))"
  shows "(summary \<noteq> [] \<and> kept \<noteq> [] \<longrightarrow>
            fst (get_article_summary e title sentences) = Inr (join ''. '' kept @ ''.'')
            \<and> suffix ''.'' (join ''. '' kept @ ''.'')
            \<and> \<not> suffix ''..'' (join ''. '' kept @ ''.''))
       \<and> (summary \<noteq> [] \<and> kept = [] \<longrightarrow>
            fst (get_article_summary e title sentences) = Inr [])
       \<and> (summary = [] \<longrightarrow>
            (\<exists>m. fst (get_article_summary e title sentences) = Inl (ValueError m)
                \<and> suffix (''No summary available for article '' @ quoted title) m))"
proof -
  have nn: "0 \<le> sentences" using assms(2) by simp
  note ls = limit_sentences_eq[OF nn assms(7)]
  note sf = summary_found[OF assms(1-5), unfolded assms(6)]
  have a: "fst (get_article_summary e title sentences) = Inr (join ''. '' kept @ ''.'')
            \<and> suffix ''.'' (join ''. '' kept @ ''.'')
            \<and> \<not> suffix ''..'' (join ''. '' kept @ ''.'')"
    if "summary \<noteq> []" "kept \<noteq> []"
  proof -
    from ls(2)[OF that(2)] have j: "join ''. '' kept \<noteq> []" "last (join ''. '' kept) \<noteq> CHR ''.''"
      by simp_all
    have "\<not> suffix ''..'' (join ''. '' kept @ ''.'')"
    proof
      assume "suffix ''..'' (join ''. '' kept @ ''.'')"
      then obtain zs where "join ''. '' kept @ ''.'' = zs @ ''..''" by (auto simp: suffix_def)
      then have "join ''. '' kept @ ''.'' = (zs @ ''.'') @ ''.''" by simp
      then have "join ''. '' kept = zs @ ''.''" by (simp only: append_same_eq)
      then have "last (join ''. '' kept) = CHR ''.''" by simp
      with j(2) show False by simp
    qed
    moreover have "suffix ''.'' (join ''. '' kept @ ''.'')" by (simp add: suffix_def)
    ultimately show ?thesis using sf ls(1) that by simp
  qed
  have b: "fst (get_article_summary e title sentences) = Inr []"
    if "summary \<noteq> []" "kept = []"
    using sf ls(1) that by simp
  have c: "\<exists>m. fst (get_article_summary e title sentences) = Inl (ValueError m)
                \<and> suffix (''No summary available for article '' @ quoted title) m"
    if "summary = []"
  proof -
    let ?m = "''No summary available for article '' @ quoted title"
    have "reraise_or_wrap ''Failed to get article summary: '' (ValueError ?m) = ValueError ?m
        \<or> reraise_or_wrap ''Failed to get article summary: '' (ValueError ?m)
            = ValueError (''Failed to get article summary: '' @ ?m)"
      by (simp add: reraise_or_wrap_def)
    moreover have "suffix ?m ?m" by simp
    moreover have "suffix ?m (''Failed to get article summary: '' @ ?m)" by (rule suffixI) (rule refl)
    ultimately show ?thesis using sf that by auto
  qed
  from a b c show ?thesis by blast
qed

theorem get_article_summary_sentences_witness:
  "fst (get_article_summary (sample_env (sample_page intro_text) [] Decline) ''Test Article'' 2)
     = Inr ''Python is a language. It is popular.''
   \<and> fst (get_article_summary (sample_env (sample_page '' . '') [] Decline) ''Test Article'' 2)
     = Inr []
   \<and> (\<exists>m. fst (get_article_summary (sample_env (sample_page []) [] Decline) ''Test Article'' 2)
            = Inl (ValueError m)
          \<and> suffix (''No summary available for article '' @ quoted ''Test Article'') m)"
proof -
  have 1: "strip ''Test Article'' \<noteq> []" by code_simp
  have 4: "wiki_page (sample_env (sample_page s) [] Decline) (strip ''Test Article'')
             = Inr (sample_page s)" for s
    by (simp add: sample_env_def)
  have 5: "page_exists (sample_page s)" for s by (simp add: sample_page_def)
  have 6: "page_summary (sample_page s) = s" for s by (simp add: sample_page_def)
  have k1: "[''Python is a language'', ''It is popular'']
              = take (nat 2) (map strip (filter (\<lambda>f. \<not> list_all isspace f)
                                           (split CHR ''.'' intro_text)))"
    by code_simp
  have k2: "[] = take (nat 2) (map strip (filter (\<lambda>f. \<not> list_all isspace f)
                                           (split CHR ''.'' '' . '')))"
    by code_simp
  have ne: "intro_text \<noteq> []" by (simp add: intro_text_def)
  have t1: "(intro_text \<noteq> [] \<and> [''Python is a language'', ''It is popular''] \<noteq> [] \<longrightarrow>
            fst (get_article_summary (sample_env (sample_page intro_text) [] Decline) ''Test Article'' 2)
              = Inr (join ''. '' [''Python is a language'', ''It is popular''] @ ''.'')
            \<and> suffix ''.'' (join ''. '' [''Python is a language'', ''It is popular''] @ ''.'')
            \<and> \<not> suffix ''..'' (join ''. '' [''Python is a language'', ''It is popular''] @ ''.''))"
    by (rule get_article_summary_sentences[OF 1 _ _ 4 5 6 k1, THEN conjunct1]) simp_all
  have j: "join ''. '' [''Python is a language'', ''It is popular''] @ ''.''
             = ''Python is a language. It is popular.''"
    by simp
  have a: "fst (get_article_summary (sample_env (sample_page intro_text) [] Decline) ''Test Article'' 2)
     = Inr ''Python is a language. It is popular.''"
    using t1[THEN mp, THEN conjunct1] ne unfolding j by blast
  have t2: "('' . '' \<noteq> [] \<and> ([] :: string list) = [] \<longrightarrow>
            fst (get_article_summary (sample_env (sample_page '' . '') [] Decline) ''Test Article'' 2)
              = Inr [])"
    by (rule get_article_summary_sentences[OF 1 _ _ 4 5 6 k2, THEN conjunct2, THEN conjunct1]) simp_all
  have b: "fst (get_article_summary (sample_env (sample_page '' . '') [] Decline) ''Test Article'' 2)
     = Inr []"
    by (rule t2[THEN mp]) simp
  have t3: "([] :: string) = [] \<longrightarrow>
          (\<exists>m. fst (get_article_summary (sample_env (sample_page []) [] Decline) ''Test Article'' 2)
            = Inl (ValueError m)
          \<and> suffix (''No summary available for article '' @ quoted ''Test Article'') m)"
    by (rule get_article_summary_sentences[OF 1 _ _ 4 5 6 refl, THEN conjunct2, THEN conjunct2]) simp_all
  have c: "\<exists>m. fst (get_article_summary (sample_env (sample_page []) [] Decline) ''Test Article'' 2)
            = Inl (ValueError m)
          \<and> suffix (''No summary available for article '' @ quoted ''Test Article'') m"
    by (rule t3[THEN mp]) (rule refl)
  from a b c show ?thesis by blast
qed

theorem get_article_summary_sentences_counterexample:
  "''...'' \<noteq> []
   \<and> fst (get_article_summary (sample_env (sample_page ''...'') [] Decline) ''Test Article'' 3)
       = Inr []
   \<and> \<not> suffix ''.'' []"
proof -
  have 1: "strip ''Test Article'' \<noteq> []" by code_simp
  have 4: "wiki_page (sample_env (sample_page ''...'') [] Decline) (strip ''Test Article'')
             = Inr (sample_page ''...'')"
    by (simp add: sample_env_def)
  have 5: "page_exists (sample_page ''...'')" by (simp add: sample_page_def)
  have 6: "page_summary (sample_page ''...'') = ''...''" by (simp add: sample_page_def)
  have l: "limit_sentences ''...'' 3 = []" by code_simp
  have "fst (get_article_summary (sample_env (sample_page ''...'') [] Decline) ''Test Article'' 3)
          = Inr []"
    using summary_found[OF 1 _ _ 4 5, of 3] unfolding 6 l by simp
  then show ?thesis by simp
qed

text \<open>
  C10. \<open>get_article_summary\<close> is not the identity on summaries that fit the
  sentence budget: a summary of two sentences separated by a newline comes back
  with the newline replaced by a space, and a summary without a final period
  comes back with a period appended.
\<close>

theorem get_article_summary_not_identity:
  "length (filter (\<lambda>f. \<not> list_all isspace f) (split CHR ''.'' ''First.\<newline>Second.'')) = 2
   \<and> fst (get_article_summary (sample_env (sample_page ''First.\<newline>Second.'') [] Decline)
             ''Test Article'' 3)
       = Inr ''First. Second.''
   \<and> ''First. Second.'' \<noteq> ''First.\<newline>Second.''
   \<and> length (filter (\<lambda>f. \<not> list_all isspace f) (split CHR ''.'' ''No period'')) = 1
   \<and> fst (get_article_summary (sample_env (sample_page ''No period'') [] Decline)
             ''Test Article'' 3)
       = Inr ''No period.''
   \<and> ''No period.'' \<noteq> ''No period''"
proof -
  have 1: "strip ''Test Article'' \<noteq> []" by code_simp
  have 4: "wiki_page (sample_env (sample_page s) [] Decline) (strip ''Test Article'')
             = Inr (sample_page s)" for s
    by (simp add: sample_env_def)
  have 5: "page_exists (sample_page s)" for s by (simp add: sample_page_def)
  have 6: "page_summary (sample_page s) = s" for s by (simp add: sample_page_def)
  have n1: "length (filter (\<lambda>f. \<not> list_all isspace f) (split CHR ''.'' ''First.\<newline>Second.'')) = 2"
    by code_simp
  have n2: "length (filter (\<lambda>f. \<not> list_all isspace f) (split CHR ''.'' ''No period'')) = 1"
    by code_simp
  have l1: "limit_sentences ''First.\<newline>Second.'' 3 = ''First. Second.''" by code_simp
  have l2: "limit_sentences ''No period'' 3 = ''No period.''" by code_simp
  have a: "fst (get_article_summary (sample_env (sample_page ''First.\<newline>Second.'') [] Decline)
             ''Test Article'' 3) = Inr ''First. Second.''"
    using summary_found[OF 1 _ _ 4 5, of 3 "''First.\<newline>Second.''"] unfolding 6 l1 by simp
  have b: "fst (get_article_summary (sample_env (sample_page ''No period'') [] Decline)
             ''Test Article'' 3) = Inr ''No period.''"
    using summary_found[OF 1 _ _ 4 5, of 3 "''No period''"] unfolding 6 l2 by simp
  from n1 n2 a b show ?thesis by simp
qed

section \<open>Interactive disambiguation\<close>

lemma search_events_no_elicit: "CtxElicit m \<notin> set (snd (search_wikipedia e query limit))"
  by (simp add: search_wikipedia_def)

lemma summary_events_no_elicit: "CtxElicit m \<notin> set (snd (get_article_summary e title sentences))"
  by (simp add: get_article_summary_def)

lemma search_ok_query: "fst (search_wikipedia e query limit) = Inr ts \<Longrightarrow> \<not> (query = [] \<or> strip query = [])"
  by (auto simp: search_wikipedia_def split: if_splits)

text \<open>
  With both names bound to objects that have \<^verbatim>\<open>fn\<close>, the body does what its
  docstring and the tests of the advanced server say. When the search yields
  exactly one title, the result is what \<open>get_article_summary\<close> returns for that
  title and \<^verbatim>\<open>ctx.elicit\<close> is never called; when it yields no title, the result is
  the no-results message, again without elicitation.
\<close>

lemma with_fn_single_result:
  "(fst (search_wikipedia e query 8) = Inr [t] \<longrightarrow>
      fst (interactive_search_with_fn e query) = fst (get_article_summary e t 3)
      \<and> (\<forall>m. CtxElicit m \<notin> set (snd (interactive_search_with_fn e query))))
   \<and> (fst (search_wikipedia e query 8) = Inr [] \<longrightarrow>
      fst (interactive_search_with_fn e query) = Inr (''No Wikipedia articles found for '' @ quoted query)
      \<and> (\<forall>m. CtxElicit m \<notin> set (snd (interactive_search_with_fn e query))))"
proof (intro conjI impI)
  assume one: "fst (search_wikipedia e query 8) = Inr [t]"
  note q = search_ok_query[OF one]
  from q one show "fst (interactive_search_with_fn e query) = fst (get_article_summary e t 3)"
    by (simp add: interactive_search_with_fn_def interactive_search_bound_def fn_def)
  from q one have "snd (interactive_search_with_fn e query) =
      CtxInfo (''Interactive search for: '' @ query) # snd (search_wikipedia e query 8)
        @ [CtxInfo ''Only one result found, retrieving summary...'']
        @ snd (get_article_summary e t 3)"
    by (simp add: interactive_search_with_fn_def interactive_search_bound_def fn_def)
  then show "\<forall>m. CtxElicit m \<notin> set (snd (interactive_search_with_fn e query))"
    using search_events_no_elicit summary_events_no_elicit by simp
next
  assume none: "fst (search_wikipedia e query 8) = Inr []"
  note q = search_ok_query[OF none]
  from q none show "fst (interactive_search_with_fn e query)
                      = Inr (''No Wikipedia articles found for '' @ quoted query)"
    by (simp add: interactive_search_with_fn_def interactive_search_bound_def fn_def)
  from q none have "snd (interactive_search_with_fn e query) =
      CtxInfo (''Interactive search for: '' @ query) # snd (search_wikipedia e query 8)"
    by (simp add: interactive_search_with_fn_def interactive_search_bound_def fn_def)
  then show "\<forall>m. CtxElicit m \<notin> set (snd (interactive_search_with_fn e query))"
    using search_events_no_elicit by simp
qed

lemma sample_search:
  "strip query \<noteq> [] \<Longrightarrow> fst (search_wikipedia (sample_env p titles r) query 8) = Inr titles"
  using strip_nonempty[of query] by (simp add: search_wikipedia_def sample_env_def)

lemma with_fn_single_result_example:
  "fst (interactive_search_with_fn (sample_env (sample_page intro_text) [''Single Article''] Decline)
          ''unique query'')
     = fst (get_article_summary (sample_env (sample_page intro_text) [''Single Article''] Decline)
              ''Single Article'' 3)
   \<and> (\<forall>m. CtxElicit m \<notin> set (snd (interactive_search_with_fn
              (sample_env (sample_page intro_text) [''Single Article''] Decline) ''unique query'')))
   \<and> fst (interactive_search_with_fn (sample_env (sample_page intro_text) [] Decline) ''unique query'')
     = Inr (''No Wikipedia articles found for '' @ quoted ''unique query'')
   \<and> (\<forall>m. CtxElicit m \<notin> set (snd (interactive_search_with_fn
              (sample_env (sample_page intro_text) [] Decline) ''unique query'')))"
proof -
  have q: "strip ''unique query'' \<noteq> []" by code_simp
  note one = sample_search[OF q, of "sample_page intro_text" "[''Single Article'']" Decline]
  note none = sample_search[OF q, of "sample_page intro_text" "[]" Decline]
  from with_fn_single_result[THEN conjunct1, THEN mp, OF one]
       with_fn_single_result[THEN conjunct2, THEN mp, OF none]
  show ?thesis by blast
qed

lemma title_match_first:
  assumes "i < length cands"
    and "sublist (lower u) (lower (cands ! i))"
    and "\<forall>j<i. \<not> sublist (lower u) (lower (cands ! j))"
  shows "title_match u cands = Some (cands ! i)"
  using assms
proof (induction cands arbitrary: i)
  case Nil
  then show ?case by simp
next
  case (Cons c cs)
  show ?case
  proof (cases i)
    case 0
    with Cons.prems show ?thesis by simp
  next
    case (Suc k)
    with Cons.prems have c: "\<not> sublist (lower u) (lower c)" by auto
    have "title_match u cs = Some (cs ! k)"
    proof (rule Cons.IH)
      show "k < length cs" using Cons.prems(1) Suc by simp
      show "sublist (lower u) (lower (cs ! k))" using Cons.prems(2) Suc by simp
      show "\<forall>j<k. \<not> sublist (lower u) (lower (cs ! j))"
      proof (intro allI impI)
        fix j assume "j < k"
        then have "Suc j < i" using Suc by simp
        with Cons.prems(3) have "\<not> sublist (lower u) (lower ((c # cs) ! Suc j))" by blast
        then show "\<not> sublist (lower u) (lower (cs ! j))" by simp
      qed
    qed
    with c Suc show ?thesis by simp
  qed
qed

lemma title_match_none:
  "\<forall>t\<in>set cands. \<not> sublist (lower u) (lower t) \<Longrightarrow> title_match u cands = None"
  by (induction cands) auto

lemma accepted_reply:
  assumes "fst (search_wikipedia e query 8) = Inr cands"
    and "2 \<le> length cands"
    and "elicit e (elicit_message query cands) = Accept reply"
  shows "fst (interactive_search_with_fn e query) = fst (accepted_selection (WithFn get_article_summary) e cands (strip reply))"
    and "set (snd (accepted_selection (WithFn get_article_summary) e cands (strip reply))) \<subseteq> set (snd (interactive_search_with_fn e query))"
proof -
  note q = search_ok_query[OF assms(1)]
  from assms(2) have n: "cands \<noteq> []" "length cands \<noteq> 1" by auto
  from q n assms(1,3)
  show "fst (interactive_search_with_fn e query) = fst (accepted_selection (WithFn get_article_summary) e cands (strip reply))"
    by (simp add: interactive_search_with_fn_def interactive_search_bound_def fn_def)
  from q n assms(1,3)
  have "snd (interactive_search_with_fn e query) =
          (CtxInfo (''Interactive search for: '' @ query) # snd (search_wikipedia e query 8))
            @ [CtxElicit (elicit_message query cands)]
            @ snd (accepted_selection (WithFn get_article_summary) e cands (strip reply))"
    by (simp add: interactive_search_with_fn_def interactive_search_bound_def fn_def)
  then show "set (snd (accepted_selection (WithFn get_article_summary) e cands (strip reply))) \<subseteq> set (snd (interactive_search_with_fn e query))"
    by auto
qed

lemma selection_by_title:
  assumes "title_match u cands = Some t"
  shows "accepted_selection (WithFn get_article_summary) e cands u =
           (fst (get_article_summary e t 3),
            CtxInfo (''User selected by title match: '' @ t) # snd (get_article_summary e t 3))"
  using assms by (simp add: accepted_selection_def fn_def)

lemma selection_by_number:
  assumes "title_match u cands = None" and "py_int u = Some k"
    and "1 \<le> k" and "k \<le> int (length cands)"
  shows "accepted_selection (WithFn get_article_summary) e cands u =
           ((case fst (get_article_summary e (cands ! nat (k - 1)) 3) of
               Inl (ValueError m) \<Rightarrow> Inr (invalid_selection u cands)
             | Inl (AttributeError m) \<Rightarrow> Inl (AttributeError m)
             | Inl (MarkupError m) \<Rightarrow> Inl (MarkupError m)
             | Inl (OtherError m) \<Rightarrow> Inl (OtherError m)
             | Inr r \<Rightarrow> Inr r),
            CtxInfo (''User selected by number: '' @ cands ! nat (k - 1))
              # snd (get_article_summary e (cands ! nat (k - 1)) 3))"
  using assms by (simp add: accepted_selection_def fn_def Let_def)

lemma selection_invalid_none:
  assumes "title_match u cands = None" and "py_int u = None"
  shows "accepted_selection (WithFn get_article_summary) e cands u = (Inr (invalid_selection u cands), [])"
  unfolding accepted_selection_def fn_def assms by simp

lemma selection_invalid_range:
  assumes "title_match u cands = None" and "py_int u = Some k"
    and "k < 1 \<or> int (length cands) < k"
  shows "accepted_selection (WithFn get_article_summary) e cands u = (Inr (invalid_selection u cands), [])"
proof -
  from assms(3) have c: "(1 \<le> k \<and> k \<le> int (length cands)) = False" by auto
  show ?thesis unfolding accepted_selection_def fn_def assms(1,2) option.case c if_False by (rule refl)
qed

lemma resolution_by_title:
  assumes "fst (search_wikipedia e query 8) = Inr cands"
    and "2 \<le> length cands"
    and "elicit e (elicit_message query cands) = Accept reply"
    and "u = strip reply"
    and a: "i < length cands \<and> sublist (lower u) (lower (cands ! i))
                 \<and> (\<forall>j<i. \<not> sublist (lower u) (lower (cands ! j)))"
  shows "fst (interactive_search_with_fn e query) = fst (get_article_summary e (cands ! i) 3)
            \<and> CtxInfo (''User selected by title match: '' @ cands ! i)
                 \<in> set (snd (interactive_search_with_fn e query))"
proof -
  note r = accepted_reply[OF assms(1-3), folded assms(4)]
  from a have 1: "i < length cands" and 2: "sublist (lower u) (lower (cands ! i))"
    and 3: "\<forall>j<i. \<not> sublist (lower u) (lower (cands ! j))" by simp_all
  note sel = selection_by_title[OF title_match_first[OF 1 2 3], of e]
  have x: "fst (interactive_search_with_fn e query) = fst (get_article_summary e (cands ! i) 3)"
    unfolding r(1) sel by (rule fst_conv)
  have "CtxInfo (''User selected by title match: '' @ cands ! i)
            \<in> set (snd (accepted_selection (WithFn get_article_summary) e cands u))"
    unfolding sel by simp
  with r(2) have y: "CtxInfo (''User selected by title match: '' @ cands ! i)
                      \<in> set (snd (interactive_search_with_fn e query))"
    by (rule rev_subsetD[rotated])
  from x y show ?thesis by (rule conjI)
qed

lemma resolution_by_number:
  assumes "fst (search_wikipedia e query 8) = Inr cands"
    and "2 \<le> length cands"
    and "elicit e (elicit_message query cands) = Accept reply"
    and "u = strip reply"
    and a: "(\<forall>t\<in>set cands. \<not> sublist (lower u) (lower t))
                 \<and> py_int u = Some k \<and> 1 \<le> k \<and> k \<le> int (length cands)"
  shows "CtxInfo (''User selected by number: '' @ cands ! nat (k - 1))
              \<in> set (snd (interactive_search_with_fn e query))
            \<and> fst (interactive_search_with_fn e query) =
                (case fst (get_article_summary e (cands ! nat (k - 1)) 3) of
                   Inl (ValueError m) \<Rightarrow>
                     Inr (''Invalid selection '' @ quoted u
                            @ ''. Please enter a title name or number 1-''
                            @ str_nat (length cands) @ ''.'')
                 | Inl (AttributeError m) \<Rightarrow> Inl (AttributeError m)
                 | Inl (MarkupError m) \<Rightarrow> Inl (MarkupError m)
                 | Inl (OtherError m) \<Rightarrow> Inl (OtherError m)
                 | Inr r \<Rightarrow> Inr r)"
proof -
  note r = accepted_reply[OF assms(1-3), folded assms(4)]
  from a have n: "\<forall>t\<in>set cands. \<not> sublist (lower u) (lower t)"
    and k: "py_int u = Some k" "1 \<le> k" "k \<le> int (length cands)" by simp_all
  note m = title_match_none[OF n]
  note sel = selection_by_number[OF m k, of e]
  have "CtxInfo (''User selected by number: '' @ cands ! nat (k - 1))
            \<in> set (snd (accepted_selection (WithFn get_article_summary) e cands u))"
    unfolding sel by simp
  with r(2) have x: "CtxInfo (''User selected by number: '' @ cands ! nat (k - 1))
                      \<in> set (snd (interactive_search_with_fn e query))"
    by (rule rev_subsetD[rotated])
  have y: "fst (interactive_search_with_fn e query) =
                (case fst (get_article_summary e (cands ! nat (k - 1)) 3) of
                   Inl (ValueError m) \<Rightarrow>
                     Inr (''Invalid selection '' @ quoted u
                            @ ''. Please enter a title name or number 1-''
                            @ str_nat (length cands) @ ''.'')
                 | Inl (AttributeError m) \<Rightarrow> Inl (AttributeError m)
                 | Inl (MarkupError m) \<Rightarrow> Inl (MarkupError m)
                 | Inl (OtherError m) \<Rightarrow> Inl (OtherError m)
                 | Inr r \<Rightarrow> Inr r)"
    unfolding r(1) sel fst_conv invalid_selection_def by (rule refl)
  from x y show ?thesis by (rule conjI)
qed

lemma resolution_invalid:
  assumes "fst (search_wikipedia e query 8) = Inr cands"
    and "2 \<le> length cands"
    and "elicit e (elicit_message query cands) = Accept reply"
    and "u = strip reply"
    and a: "(\<forall>t\<in>set cands. \<not> sublist (lower u) (lower t))
              \<and> (py_int u = None \<or> (\<exists>k. py_int u = Some k \<and> (k < 1 \<or> int (length cands) < k)))"
  shows "fst (interactive_search_with_fn e query) =
              Inr (''Invalid selection '' @ quoted u
                     @ ''. Please enter a title name or number 1-''
                     @ str_nat (length cands) @ ''.'')"
proof -
  note r = accepted_reply[OF assms(1-3), folded assms(4)]
  from a have n: "\<forall>t\<in>set cands. \<not> sublist (lower u) (lower t)"
    and d: "py_int u = None \<or> (\<exists>k. py_int u = Some k \<and> (k < 1 \<or> int (length cands) < k))"
    by simp_all
  note m = title_match_none[OF n]
  from d have "accepted_selection (WithFn get_article_summary) e cands u = (Inr (invalid_selection u cands), [])"
  proof
    assume "py_int u = None"
    with m show ?thesis by (rule selection_invalid_none)
  next
    assume "\<exists>k. py_int u = Some k \<and> (k < 1 \<or> int (length cands) < k)"
    then obtain k where "py_int u = Some k" "k < 1 \<or> int (length cands) < k" by blast
    with m show ?thesis by (rule selection_invalid_range)
  qed
  then show ?thesis
    unfolding r(1) invalid_selection_def by simp
qed
text \<open>
  Under the same binding, let the search yield the candidates \<open>cands\<close>, at least
  two so that the client is asked, and let the client accept with \<open>reply\<close>; \<open>u\<close> is
  the trimmed reply. If \<open>i\<close> is the first position whose title contains \<open>u\<close>, case
  ignored, the title \<open>cands ! i\<close> is selected and its summary returned. If no title
  contains \<open>u\<close> and \<open>u\<close> parses as an integer \<open>k\<close> with \<open>1 \<le> k \<le> length cands\<close>, the
  title \<open>cands ! (k - 1)\<close> is selected by number and its summary returned (a
  \<open>ValueError\<close> of that summary call is swallowed by the surrounding
  \<^verbatim>\<open>except ValueError\<close> and becomes the invalid-selection message). If no title
  contains \<open>u\<close> and \<open>u\<close> is no integer or is out of range, the result is the
  invalid-selection message, which names a title or a number from 1 to the number
  of candidates.
\<close>

lemma with_fn_resolution:
  assumes "fst (search_wikipedia e query 8) = Inr cands"
    and "2 \<le> length cands"
    and "elicit e (elicit_message query cands) = Accept reply"
    and "u = strip reply"
  shows "(\<forall>i. i < length cands \<and> sublist (lower u) (lower (cands ! i))
              \<and> (\<forall>j<i. \<not> sublist (lower u) (lower (cands ! j))) \<longrightarrow>
            fst (interactive_search_with_fn e query) = fst (get_article_summary e (cands ! i) 3)
            \<and> CtxInfo (''User selected by title match: '' @ cands ! i)
                 \<in> set (snd (interactive_search_with_fn e query)))
       \<and> (\<forall>k. (\<forall>t\<in>set cands. \<not> sublist (lower u) (lower t))
              \<and> py_int u = Some k \<and> 1 \<le> k \<and> k \<le> int (length cands) \<longrightarrow>
            CtxInfo (''User selected by number: '' @ cands ! nat (k - 1))
              \<in> set (snd (interactive_search_with_fn e query))
            \<and> fst (interactive_search_with_fn e query) =
                (case fst (get_article_summary e (cands ! nat (k - 1)) 3) of
                   Inl (ValueError m) \<Rightarrow>
                     Inr (''Invalid selection '' @ quoted u
                            @ ''. Please enter a title name or number 1-''
                            @ str_nat (length cands) @ ''.'')
                 | Inl (AttributeError m) \<Rightarrow> Inl (AttributeError m)
                 | Inl (MarkupError m) \<Rightarrow> Inl (MarkupError m)
                 | Inl (OtherError m) \<Rightarrow> Inl (OtherError m)
                 | Inr r \<Rightarrow> Inr r))
       \<and> ((\<forall>t\<in>set cands. \<not> sublist (lower u) (lower t))
              \<and> (py_int u = None \<or> (\<exists>k. py_int u = Some k \<and> (k < 1 \<or> int (length cands) < k))) \<longrightarrow>
            fst (interactive_search_with_fn e query) =
              Inr (''Invalid selection '' @ quoted u
                     @ ''. Please enter a title name or number 1-''
                     @ str_nat (length cands) @ ''.''))"
proof -
  have a: "\<forall>i. i < length cands \<and> sublist (lower u) (lower (cands ! i))
              \<and> (\<forall>j<i. \<not> sublist (lower u) (lower (cands ! j))) \<longrightarrow>
            fst (interactive_search_with_fn e query) = fst (get_article_summary e (cands ! i) 3)
            \<and> CtxInfo (''User selected by title match: '' @ cands ! i)
                 \<in> set (snd (interactive_search_with_fn e query))"
  proof (rule allI, rule impI)
    fix i
    assume "i < length cands \<and> sublist (lower u) (lower (cands ! i))
              \<and> (\<forall>j<i. \<not> sublist (lower u) (lower (cands ! j)))"
    with assms show "fst (interactive_search_with_fn e query) = fst (get_article_summary e (cands ! i) 3)
            \<and> CtxInfo (''User selected by title match: '' @ cands ! i)
                 \<in> set (snd (interactive_search_with_fn e query))"
      by (rule resolution_by_title)
  qed
  have b: "\<forall>k. (\<forall>t\<in>set cands. \<not> sublist (lower u) (lower t))
              \<and> py_int u = Some k \<and> 1 \<le> k \<and> k \<le> int (length cands) \<longrightarrow>
            CtxInfo (''User selected by number: '' @ cands ! nat (k - 1))
              \<in> set (snd (interactive_search_with_fn e query))
            \<and> fst (interactive_search_with_fn e query) =
                (case fst (get_article_summary e (cands ! nat (k - 1)) 3) of
                   Inl (ValueError m) \<Rightarrow>
                     Inr (''Invalid selection '' @ quoted u
                            @ ''. Please enter a title name or number 1-''
                            @ str_nat (length cands) @ ''.'')
                 | Inl (AttributeError m) \<Rightarrow> Inl (AttributeError m)
                 | Inl (MarkupError m) \<Rightarrow> Inl (MarkupError m)
                 | Inl (OtherError m) \<Rightarrow> Inl (OtherError m)
                 | Inr r \<Rightarrow> Inr r)"
  proof (rule allI, rule impI)
    fix k
    assume "(\<forall>t\<in>set cands. \<not> sublist (lower u) (lower t))
              \<and> py_int u = Some k \<and> 1 \<le> k \<and> k \<le> int (length cands)"
    with assms show "CtxInfo (''User selected by number: '' @ cands ! nat (k - 1))
              \<in> set (snd (interactive_search_with_fn e query))
            \<and> fst (interactive_search_with_fn e query) =
                (case fst (get_article_summary e (cands ! nat (k - 1)) 3) of
                   Inl (ValueError m) \<Rightarrow>
                     Inr (''Invalid selection '' @ quoted u
                            @ ''. Please enter a title name or number 1-''
                            @ str_nat (length cands) @ ''.'')
                 | Inl (AttributeError m) \<Rightarrow> Inl (AttributeError m)
                 | Inl (MarkupError m) \<Rightarrow> Inl (MarkupError m)
                 | Inl (OtherError m) \<Rightarrow> Inl (OtherError m)
                 | Inr r \<Rightarrow> Inr r)"
      by (rule resolution_by_number)
  qed
  have c: "(\<forall>t\<in>set cands. \<not> sublist (lower u) (lower t))
              \<and> (py_int u = None \<or> (\<exists>k. py_int u = Some k \<and> (k < 1 \<or> int (length cands) < k))) \<longrightarrow>
            fst (interactive_search_with_fn e query) =
              Inr (''Invalid selection '' @ quoted u
                     @ ''. Please enter a title name or number 1-''
                     @ str_nat (length cands) @ ''.'')"
  proof (rule impI)
    assume "(\<forall>t\<in>set cands. \<not> sublist (lower u) (lower t))
              \<and> (py_int u = None \<or> (\<exists>k. py_int u = Some k \<and> (k < 1 \<or> int (length cands) < k)))"
    with assms show "fst (interactive_search_with_fn e query) =
              Inr (''Invalid selection '' @ quoted u
                     @ ''. Please enter a title name or number 1-''
                     @ str_nat (length cands) @ ''.'')"
      by (rule resolution_invalid)
  qed
  from a b c show ?thesis by (intro conjI)
qed

lemma with_fn_resolution_example:
  "fst (interactive_search_with_fn (sample_env (sample_page intro_text) python_titles (Accept ''programming''))
          ''python'')
     = fst (get_article_summary (sample_env (sample_page intro_text) python_titles (Accept ''programming''))
              ''Python (programming language)'' 3)
   \<and> CtxInfo ''User selected by title match: Python (programming language)''
       \<in> set (snd (interactive_search_with_fn
                  (sample_env (sample_page intro_text) python_titles (Accept ''programming''))
                  ''python''))
   \<and> CtxInfo ''User selected by number: Python (snake)''
       \<in> set (snd (interactive_search_with_fn
                  (sample_env (sample_page intro_text) python_titles (Accept '' 3 ''))
                  ''python''))
   \<and> fst (interactive_search_with_fn (sample_env (sample_page intro_text) python_titles (Accept ''seven''))
          ''python'')
     = Inr ''Invalid selection 'seven'. Please enter a title name or number 1-3.''"
proof -
  have q: "strip ''python'' \<noteq> []" by code_simp
  note s = sample_search[OF q, of "sample_page intro_text" python_titles]
  have n: "2 \<le> length python_titles" by (simp add: python_titles_def)
  have el: "elicit (sample_env (sample_page intro_text) python_titles r)
              (elicit_message ''python'' python_titles) = r" for r
    by (simp add: sample_env_def)
  have u1: "''programming'' = strip ''programming''" by code_simp
  have u2: "''3'' = strip '' 3 ''" by code_simp
  have u3: "''seven'' = strip ''seven''" by code_simp
  have f0: "sublist (lower ''programming'') (lower (python_titles ! 0))" by code_simp
  have first: "0 < length python_titles
                 \<and> sublist (lower ''programming'') (lower (python_titles ! 0))
                 \<and> (\<forall>j<0. \<not> sublist (lower ''programming'') (lower (python_titles ! j)))"
    using f0 n by auto
  have no3: "\<forall>t\<in>set python_titles. \<not> sublist (lower ''3'') (lower t)" by code_simp
  have p3: "py_int ''3'' = Some 3" by code_simp
  have l3: "(1::int) \<le> 3 \<and> 3 \<le> int (length python_titles)" by (simp add: python_titles_def)
  from no3 p3 l3
  have third: "(\<forall>t\<in>set python_titles. \<not> sublist (lower ''3'') (lower t))
                 \<and> py_int ''3'' = Some 3 \<and> (1::int) \<le> 3 \<and> 3 \<le> int (length python_titles)"
    by (intro conjI) (rule no3, rule p3, rule l3[THEN conjunct1], rule l3[THEN conjunct2])
  have no7: "\<forall>t\<in>set python_titles. \<not> sublist (lower ''seven'') (lower t)" by code_simp
  have p7: "py_int ''seven'' = None" by code_simp
  have seventh: "(\<forall>t\<in>set python_titles. \<not> sublist (lower ''seven'') (lower t))
                 \<and> (py_int ''seven'' = None
                      \<or> (\<exists>k. py_int ''seven'' = Some k \<and> (k < 1 \<or> int (length python_titles) < k)))"
    by (rule conjI[OF no7 disjI1[OF p7]])
  have m0: "''User selected by title match: '' @ ''Python (programming language)''
              = ''User selected by title match: Python (programming language)''"
    by simp
  have t0: "python_titles ! 0 = ''Python (programming language)''" by (simp add: python_titles_def)
  have m2: "''User selected by number: '' @ python_titles ! nat (3 - 1)
              = ''User selected by number: Python (snake)''"
    by (simp add: python_titles_def)
  have m7: "''Invalid selection '' @ quoted ''seven''
              @ ''. Please enter a title name or number 1-''
              @ str_nat (length python_titles) @ ''.''
            = ''Invalid selection 'seven'. Please enter a title name or number 1-3.''"
    by code_simp
  note A = with_fn_resolution[OF s n el u1, THEN conjunct1, THEN spec, THEN mp, OF first,
             unfolded t0 m0]
  note B = with_fn_resolution[OF s n el u2, THEN conjunct2, THEN conjunct1, THEN spec,
             THEN mp, OF third, THEN conjunct1, unfolded m2]
  note C = with_fn_resolution[OF s n el u3, THEN conjunct2, THEN conjunct2, THEN mp,
             OF seventh, unfolded m7]
  show ?thesis
    by (intro conjI) (rule A[THEN conjunct1], rule A[THEN conjunct2], rule B, rule C)
qed



text \<open>
  As shipped, the first access to \<^verbatim>\<open>fn\<close> fails: for every query that is not blank
  \<open>interactive_search\<close> raises \<open>AttributeError\<close> after its first \<^verbatim>\<open>ctx.info\<close>, before any
  search, lookup or elicitation.
\<close>

lemma interactive_search_raises:
  assumes "strip query \<noteq> []"
  shows "interactive_search e query =
           (Inl (AttributeError (quoted ''function'' @ '' object has no attribute '' @ quoted ''fn'')),
            [CtxInfo (''Interactive search for: '' @ query)])"
  using strip_nonempty[OF assms]
  by (simp add: interactive_search_def interactive_search_bound_def fn_def)

text \<open>
  C6 (the shipped code breaks it). The query "unique query" against a search
  endpoint that answers the single title "Single Article": \<open>interactive_search\<close>
  raises \<open>AttributeError\<close> at \<^verbatim>\<open>search_wikipedia.fn\<close> and returns no summary, whereas the
  same body with names that have \<^verbatim>\<open>fn\<close> returns the summary of that title.
\<close>

theorem single_result_attribute_error:
  "fst (search_wikipedia (sample_env (sample_page intro_text) [''Single Article''] Decline)
          ''unique query'' 8)
     = Inr [''Single Article'']
   \<and> interactive_search (sample_env (sample_page intro_text) [''Single Article''] Decline)
       ''unique query''
     = (Inl (AttributeError (quoted ''function'' @ '' object has no attribute '' @ quoted ''fn'')),
        [CtxInfo ''Interactive search for: unique query''])
   \<and> fst (interactive_search_with_fn
            (sample_env (sample_page intro_text) [''Single Article''] Decline) ''unique query'')
     = fst (get_article_summary (sample_env (sample_page intro_text) [''Single Article''] Decline)
              ''Single Article'' 3)"
proof -
  have q: "strip ''unique query'' \<noteq> []" by code_simp
  note a = sample_search[OF q, of "sample_page intro_text" "[''Single Article'']" Decline]
  have m: "''Interactive search for: '' @ ''unique query'' = ''Interactive search for: unique query''"
    by simp
  note b = interactive_search_raises[OF q,
             of "sample_env (sample_page intro_text) [''Single Article''] Decline", unfolded m]
  note c = with_fn_single_result_example[THEN conjunct1]
  show ?thesis by (intro conjI) (rule a, rule b, rule c)
qed

text \<open>
  C5 (the shipped code breaks it). The query "python" against a search endpoint
  that answers the three Python titles and a client that accepts with
  "programming": \<open>interactive_search\<close> raises \<open>AttributeError\<close> at
  \<^verbatim>\<open>search_wikipedia.fn\<close>, before the client is asked, whereas the same body with
  names that have \<^verbatim>\<open>fn\<close> selects "Python (programming language)" and returns its
  summary.
\<close>

theorem accepted_reply_attribute_error:
  "fst (search_wikipedia (sample_env (sample_page intro_text) python_titles (Accept ''programming''))
          ''python'' 8)
     = Inr python_titles
   \<and> elicit (sample_env (sample_page intro_text) python_titles (Accept ''programming''))
       (elicit_message ''python'' python_titles)
     = Accept ''programming''
   \<and> interactive_search (sample_env (sample_page intro_text) python_titles (Accept ''programming''))
       ''python''
     = (Inl (AttributeError (quoted ''function'' @ '' object has no attribute '' @ quoted ''fn'')),
        [CtxInfo ''Interactive search for: python''])
   \<and> fst (interactive_search_with_fn
            (sample_env (sample_page intro_text) python_titles (Accept ''programming'')) ''python'')
     = fst (get_article_summary
              (sample_env (sample_page intro_text) python_titles (Accept ''programming''))
              ''Python (programming language)'' 3)"
proof -
  have q: "strip ''python'' \<noteq> []" by code_simp
  note a = sample_search[OF q, of "sample_page intro_text" python_titles "Accept ''programming''"]
  have el: "elicit (sample_env (sample_page intro_text) python_titles (Accept ''programming''))
              (elicit_message ''python'' python_titles) = Accept ''programming''"
    by (simp add: sample_env_def)
  have m: "''Interactive search for: '' @ ''python'' = ''Interactive search for: python''"
    by simp
  note b = interactive_search_raises[OF q,
             of "sample_env (sample_page intro_text) python_titles (Accept ''programming'')",
             unfolded m]
  note c = with_fn_resolution_example[THEN conjunct1]
  show ?thesis by (intro conjI) (rule a, rule el, rule b, rule c)
qed

section \<open>The chat loop\<close>

lemma chat_loop_break:
  "chat_step lr t = (Break, lr', out) \<Longrightarrow> chat_loop lr (t # ts) = (Terminated, lr', out)"
  by simp

lemma chat_loop_abort:
  "chat_step lr t = (Abort err, lr', out) \<Longrightarrow> chat_loop lr (t # ts) = (Failed err, lr', out)"
  by simp

lemma chat_loop_continue:
  "chat_step lr t = (Continue, lr', out) \<Longrightarrow>
     chat_loop lr (t # ts) =
       (fst (chat_loop lr' ts), fst (snd (chat_loop lr' ts)), out @ snd (snd (chat_loop lr' ts)))"
  by (simp add: case_prod_beta)

text \<open>A quit word ends the loop, in any state and whatever follows.\<close>

lemma chat_step_quit:
  assumes "console_input t = Typed line"
    and "lower (strip line) \<in> set [''quit'', ''exit'', ''q'']"
  shows "chat_step lr t = (Break, lr, [PrintThanks])"
  unfolding chat_step_def assms(1) console_input.case Let_def using assms(2) by (simp only: if_True)

lemma chat_step_agent_raises:
  assumes "console_input t = Typed line"
    and "lower (strip line) \<notin> set [''quit'', ''exit'', ''q'']"
    and "lower (strip line) \<notin> set [''history'', ''hist'', ''h'']"
    and "lower (strip line) \<notin> set [''clear'', ''clear history'', ''reset'']"
    and "strip line \<noteq> []"
    and "agent_run t (strip line) (get_message_history_for_next_run lr) = Raises m"
  shows "chat_step lr t = report_error t lr [ProgressStarted, ProgressFailed] m"
  unfolding chat_step_def assms(1) console_input.case Let_def
  using assms(2-6) by (simp only: if_False agent_outcome.case)

lemma first_tag_plain: "CHR ''['' \<notin> set s \<Longrightarrow> first_tag position backslashes s = None"
  by (induction s arbitrary: position backslashes) auto

text \<open>
  An exception of the agent call whose text holds no opening bracket is reported
  and the loop continues.
\<close>

lemma agent_error_reported:
  assumes "console_input t = Typed line"
    and "lower (strip line) \<notin> set [''quit'', ''exit'', ''q'']"
    and "lower (strip line) \<notin> set [''history'', ''hist'', ''h'']"
    and "lower (strip line) \<notin> set [''clear'', ''clear history'', ''reset'']"
    and "strip line \<noteq> []"
    and "agent_run t (strip line) (get_message_history_for_next_run lr) = Raises m"
    and "CHR ''['' \<notin> set m"
  shows "chat_step lr t
           = (Continue, lr, [ProgressStarted, ProgressFailed, PrintError m, PrintHint])"
  unfolding chat_step_agent_raises[OF assms(1-6)]
  by (simp add: report_error_def markup_error_def first_tag_plain[OF assms(7)])

text \<open>
  An exception of the agent call whose text has a closing tag as its first tag
  makes the print of the error line raise \<open>MarkupError\<close>, whatever the library
  does with styles, and the exception leaves the loop.
\<close>

lemma agent_error_closing_tag:
  assumes "console_input t = Typed line"
    and "lower (strip line) \<notin> set [''quit'', ''exit'', ''q'']"
    and "lower (strip line) \<notin> set [''history'', ''hist'', ''h'']"
    and "lower (strip line) \<notin> set [''clear'', ''clear history'', ''reset'']"
    and "strip line \<noteq> []"
    and "agent_run t (strip line) (get_message_history_for_next_run lr) = Raises m"
    and "first_tag 0 0 m = Some (position, CHR ''/'' # name)"
  shows "chat_loop lr (t # ts)
           = (Failed (MarkupError (closing_tag_error (34 + position) (CHR ''/'' # name))), lr,
              [ProgressStarted, ProgressFailed])"
proof -
  have "chat_step lr t
          = (Abort (MarkupError (closing_tag_error (34 + position) (CHR ''/'' # name))), lr,
             [ProgressStarted, ProgressFailed])"
    unfolding chat_step_agent_raises[OF assms(1-6)]
    by (simp add: report_error_def markup_error_def assms(7))
  then show ?thesis by (rule chat_loop_abort)
qed

text \<open>
  C9 (the shipped code breaks it). The user asks "What is Python?" and the agent
  call raises an exception with the text "bad [/red] tag". The clause
  \<^verbatim>\<open>except Exception\<close> catches it, and its own print of the error line raises
  \<open>MarkupError\<close>, which ends the loop: the "quit" that follows is never read.
\<close>

theorem agent_error_with_closing_tag_ends_loop:
  "chat_loop None [sample_turn ''What is Python?'' (Raises ''bad [/red] tag''),
                   sample_turn ''quit'' (Raises [])]
     = (Failed (MarkupError (''closing tag '' @ quoted ''[/red]''
                               @ '' at position 38 doesn't match any open tag'')),
        None, [ProgressStarted, ProgressFailed])"
proof -
  let ?t = "sample_turn ''What is Python?'' (Raises ''bad [/red] tag'')"
  have 1: "console_input ?t = Typed ''What is Python?''" by (simp add: sample_turn_def)
  have 2: "lower (strip ''What is Python?'') \<notin> set [''quit'', ''exit'', ''q'']" by code_simp
  have 3: "lower (strip ''What is Python?'') \<notin> set [''history'', ''hist'', ''h'']" by code_simp
  have 4: "lower (strip ''What is Python?'') \<notin> set [''clear'', ''clear history'', ''reset'']"
    by code_simp
  have 5: "strip ''What is Python?'' \<noteq> []" by code_simp
  have 6: "agent_run ?t (strip ''What is Python?'') (get_message_history_for_next_run None)
             = Raises ''bad [/red] tag''"
    by (simp add: sample_turn_def)
  have 7: "first_tag 0 0 ''bad [/red] tag'' = Some (4, CHR ''/'' # ''red'')" by code_simp
  have m: "closing_tag_error (34 + 4) (CHR ''/'' # ''red'')
             = ''closing tag '' @ quoted ''[/red]'' @ '' at position 38 doesn't match any open tag''"
    by code_simp
  show ?thesis
    by (rule agent_error_closing_tag[OF 1 2 3 4 5 6 7, of "[sample_turn ''quit'' (Raises [])]",
               unfolded m])
qed

end
